theory Spec2Isabelle
  imports Complex_Main "HOL-Library.AList"
begin

section \<open>Call sessions and server-side billing of the TingaTalk backend\<close>

text \<open>
  A shallow embedding of the call-control handlers of \<^verbatim>\<open>server.js\<close> and of the ledger
  and lock primitives of the scalability module.

  Conventions of the embedding.
  \<^item> A JavaScript \<^verbatim>\<open>Map\<close> keeps insertion order, \<^verbatim>\<open>set\<close> on a present key overwrites
    in place and \<^verbatim>\<open>delete\<close> removes the entry: an association list with
    \<^const>\<open>AList.update\<close>, \<^const>\<open>AList.delete\<close> and \<^const>\<open>map_of\<close>.
  \<^item> An identifier is a string; the empty string stands for a missing (falsy) one.
  \<^item> JavaScript numbers are read as exact rationals: \<^verbatim>\<open>0.2\<close> is \<open>1/5\<close>, and
    \<^verbatim>\<open>Math.ceil\<close> is the ceiling of the exact product. Rounding errors of the
    double-precision product are outside the embedding.
  \<^item> A handler runs without interruption up to an \<^verbatim>\<open>await\<close>, where other handlers may
    run. \<^verbatim>\<open>/api/calls/complete\<close> and \<^verbatim>\<open>initiate_call\<close>, which check a map before an
    \<^verbatim>\<open>await\<close> and write it after, are given in two phases, with what the handler holds in
    local variables across the \<^verbatim>\<open>await\<close> passed from the first to the second; the
    function named after the handler is the run in which nothing comes in between, and
    \<open>complete_overlapped\<close> and \<open>initiate_overlapped\<close> are the runs in which a second request
    comes in between. Every other handler and sweep is given as one uninterrupted run.
    What an awaited collaborator (the Firestore ledger, the push sender) answers is part
    of the state or a parameter of the handler.
  \<^item> Wall-clock readings (\<^verbatim>\<open>Date.now()\<close>) are a parameter \<open>now\<close>; the timestamps that
    no handler reads back (\<^verbatim>\<open>lastStatusChange\<close>, \<^verbatim>\<open>createdAt\<close>, \<^verbatim>\<open>endedAt\<close>, ...) are left out.
\<close>

subsection \<open>Data model\<close>

type_synonym user_id = string
type_synonym call_id = string
type_synonym socket_id = string
type_synonym interval_id = nat

datatype status_val = Available | Unavailable | Busy | Ringing | Disconnected | Fcm_reachable

datatype call_status =
  Initiated | Call_ringing | Pending_fcm | Failed | Accepted | Declined | Ended | Cancelled
  | Timeout | Call_disconnected

text \<open>\<^verbatim>\<open>userStatus\<close>: userId -> { status, currentCallId }.\<close>

record user_status =
  status :: status_val
  currentCallId :: "call_id option"

text \<open>\<^verbatim>\<open>connectedUsers\<close>: userId -> { socketId, userType, isOnline }.\<close>

record connection =
  socketId :: socket_id
  userType :: string
  isOnline :: bool

text \<open>\<^verbatim>\<open>activeCalls\<close>: callId -> the call object built by \<^verbatim>\<open>initiate_call\<close>.\<close>

record call =
  callId :: call_id
  roomName :: string
  callerId :: user_id
  callerName :: string
  recipientId :: user_id
  callType :: string
  call_state :: call_status
  participants :: "user_id list"

text \<open>\<^verbatim>\<open>callTimers\<close>: callId -> the billing timer.\<close>

record timer =
  interval :: interval_id
  startTime :: nat
  durationSeconds :: nat
  coinRate :: rat
  timer_callerId :: user_id
  timer_recipientId :: user_id
  timer_callType :: string
  lastHeartbeat :: nat
  autoStarted :: bool

text \<open>A document of the Firestore \<^verbatim>\<open>users\<close> collection, as far as the handlers read it.\<close>

record user_doc =
  coinBalance :: "int option"
  coins :: "int option"
  isAvailable :: "bool option"
  fcmToken :: string
  displayName :: string
  name :: string
  username :: string

text \<open>A document of the Firestore \<^verbatim>\<open>calls\<close> collection, and the \<^verbatim>\<open>updates\<close> object of
  \<^verbatim>\<open>updateCallInFirestore\<close> restricted to the fields that function copies.\<close>

record call_doc =
  doc_status :: string
  doc_durationSeconds :: rat
  doc_coinsDeducted :: rat
  doc_endReason :: string

record call_updates =
  upd_status :: "string option"
  upd_durationSeconds :: "rat option"
  upd_coinsDeducted :: "rat option"
  upd_endReason :: "string option"

text \<open>
  The server: the four in-process maps, the live \<^verbatim>\<open>setInterval\<close> callbacks (each closes
  over the callId it was created for), the connected sockets of \<^verbatim>\<open>io.sockets.sockets\<close>,
  the Firestore collections, the Redis call locks, and the history of the calls made to
  \<^verbatim>\<open>deductUserCoins\<close> (user, amount, callId).
\<close>

record server =
  activeCalls :: "(call_id \<times> call) list"
  connectedUsers :: "(user_id \<times> connection) list"
  userStatus :: "(user_id \<times> user_status) list"
  callTimers :: "(call_id \<times> timer) list"
  intervals :: "(interval_id \<times> call_id) list"
  next_interval :: interval_id
  sockets :: "socket_id set"
  firestore_ready :: bool
  firestore_users :: "(user_id \<times> user_doc) list"
  firestore_calls :: "(call_id \<times> call_doc) list"
  call_locks :: "(user_id \<times> user_id) list"
  deduct_calls :: "(user_id \<times> int \<times> call_id) list"

text \<open>What a handler sends: the target socket and the event.\<close>

datatype event =
  Error_event string
  | Call_failed call_id string "status_val option" bool
  | Incoming_call call_id user_id string
  | Call_initiated call_id string bool
  | Call_timeout call_id
  | Call_accepted call_id user_id
  | Call_declined call_id
  | Call_cancelled call_id user_id
  | Call_ended call_id user_id
  | Participant_disconnected call_id user_id

type_synonym emits = "(socket_id \<times> event) list"

subsection \<open>JavaScript operators\<close>

definition js_or :: "string \<Rightarrow> string \<Rightarrow> string" where
  "js_or a b = (if a \<noteq> [] then a else b)"

definition or_zero :: "'a::zero option \<Rightarrow> 'a" where
  "or_zero x = (case x of None \<Rightarrow> 0 | Some v \<Rightarrow> v)"

text \<open>\<^verbatim>\<open>parseFloat(x.toFixed(2))\<close>: the nearest multiple of 1/100, a tie going away from zero.\<close>

definition toFixed2 :: "rat \<Rightarrow> rat" where
  "toFixed2 x =
     (if x < 0 then - (of_int \<lfloor>- x * 100 + 1 / 2\<rfloor> / 100) else of_int \<lfloor>x * 100 + 1 / 2\<rfloor> / 100)"

subsection \<open>Coin rates\<close>

definition COIN_RATES_audio :: rat where
  "COIN_RATES_audio = 1 / 5"

definition COIN_RATES_video :: rat where
  "COIN_RATES_video = 1"

definition coin_rate_of :: "string \<Rightarrow> rat" where
  "coin_rate_of ct = (if ct = ''video'' then COIN_RATES_video else COIN_RATES_audio)"

definition MIN_CALL_DURATION_SECONDS :: nat where
  "MIN_CALL_DURATION_SECONDS = 120"

definition min_balance_of :: "string \<Rightarrow> rat" where
  "min_balance_of ct = coin_rate_of ct * of_nat MIN_CALL_DURATION_SECONDS"

subsection \<open>Wrappers around the maps, timers of the runtime\<close>

definition setUserStatusSync :: "user_id \<Rightarrow> user_status \<Rightarrow> server \<Rightarrow> server" where
  "setUserStatusSync userId st s = s\<lparr>userStatus := AList.update userId st (userStatus s)\<rparr>"

definition set_available :: "user_id \<Rightarrow> server \<Rightarrow> server" where
  "set_available userId = setUserStatusSync userId \<lparr>status = Available, currentCallId = None\<rparr>"

definition setInterval :: "call_id \<Rightarrow> server \<Rightarrow> interval_id \<times> server" where
  "setInterval cid s =
     (next_interval s,
      s\<lparr>intervals := intervals s @ [(next_interval s, cid)], next_interval := Suc (next_interval s)\<rparr>)"

definition clearInterval :: "interval_id \<Rightarrow> server \<Rightarrow> server" where
  "clearInterval i s = s\<lparr>intervals := filter (\<lambda>p. fst p \<noteq> i) (intervals s)\<rparr>"

text \<open>The callback every start path installs: \<^verbatim>\<open>if (timer) timer.durationSeconds++\<close>.\<close>

definition interval_callback :: "call_id \<Rightarrow> server \<Rightarrow> server" where
  "interval_callback cid s =
     (case map_of (callTimers s) cid of
        None \<Rightarrow> s
      | Some t \<Rightarrow>
          s\<lparr>callTimers := AList.update cid (t\<lparr>durationSeconds := Suc (durationSeconds t)\<rparr>) (callTimers s)\<rparr>)"

text \<open>One second passes: every live interval fires once.\<close>

definition second_elapses :: "server \<Rightarrow> server" where
  "second_elapses s = fold (\<lambda>p. interval_callback (snd p)) (intervals s) s"

subsection \<open>The ledger and the call mirror (scalability module)\<close>

definition deductUserCoins :: "user_id \<Rightarrow> int \<Rightarrow> call_id \<Rightarrow> server \<Rightarrow> server" where
  "deductUserCoins userId amount cid s =
     (let s' = s\<lparr>deduct_calls := deduct_calls s @ [(userId, amount, cid)]\<rparr> in
      if \<not> firestore_ready s then s'
      else case map_of (firestore_users s) userId of
        None \<Rightarrow> s'
      | Some d \<Rightarrow>
          let useNewField = (coinBalance d \<noteq> None);
              currentBalance = (if useNewField then or_zero (coinBalance d) else or_zero (coins d))
          in if currentBalance < amount then s'
             else s'\<lparr>firestore_users :=
                      AList.update userId
                        (if useNewField then d\<lparr>coinBalance := Some (currentBalance - amount)\<rparr>
                         else d\<lparr>coins := Some (currentBalance - amount)\<rparr>)
                        (firestore_users s)\<rparr>)"

definition getUserBalance :: "user_id \<Rightarrow> server \<Rightarrow> int option" where
  "getUserBalance userId s =
     (if \<not> firestore_ready s then None
      else case map_of (firestore_users s) userId of
        None \<Rightarrow> None
      | Some d \<Rightarrow>
          Some (if or_zero (coinBalance d) \<noteq> 0 then or_zero (coinBalance d)
                else if or_zero (coins d) \<noteq> 0 then or_zero (coins d) else 0))"

definition apply_updates :: "call_updates \<Rightarrow> call_doc \<Rightarrow> call_doc" where
  "apply_updates u d =
     d\<lparr>doc_durationSeconds := (case upd_durationSeconds u of None \<Rightarrow> doc_durationSeconds d | Some v \<Rightarrow> v),
       doc_coinsDeducted := (case upd_coinsDeducted u of None \<Rightarrow> doc_coinsDeducted d | Some v \<Rightarrow> v),
       doc_status := (case upd_status u of None \<Rightarrow> doc_status d | Some v \<Rightarrow> v),
       doc_endReason := (case upd_endReason u of None \<Rightarrow> doc_endReason d | Some v \<Rightarrow> v)\<rparr>"

text \<open>\<^verbatim>\<open>callRef.update\<close> fails on a missing document; the error is caught and logged.\<close>

definition updateCallInFirestore :: "call_id \<Rightarrow> call_updates \<Rightarrow> server \<Rightarrow> server" where
  "updateCallInFirestore cid u s =
     (if \<not> firestore_ready s then s
      else case map_of (firestore_calls s) cid of
        None \<Rightarrow> s
      | Some d \<Rightarrow> s\<lparr>firestore_calls := AList.update cid (apply_updates u d) (firestore_calls s)\<rparr>)"

text \<open>\<^verbatim>\<open>callRef.set(..., { merge: true })\<close>: status, duration and coins are written, the
  other fields of an existing document stay.\<close>

definition saveCallToFirestore :: "call_id \<Rightarrow> string \<Rightarrow> server \<Rightarrow> server" where
  "saveCallToFirestore cid st s =
     (if \<not> firestore_ready s then s
      else s\<lparr>firestore_calls :=
               AList.update cid
                 \<lparr>doc_status = js_or st ''initiated'', doc_durationSeconds = 0, doc_coinsDeducted = 0,
                  doc_endReason = (case map_of (firestore_calls s) cid of None \<Rightarrow> [] | Some d \<Rightarrow> doc_endReason d)\<rparr>
                 (firestore_calls s)\<rparr>)"

definition setActiveCallSync :: "call_id \<Rightarrow> call \<Rightarrow> string \<Rightarrow> server \<Rightarrow> server" where
  "setActiveCallSync cid c st s =
     saveCallToFirestore cid st (s\<lparr>activeCalls := AList.update cid c (activeCalls s)\<rparr>)"

definition deleteActiveCallSync :: "call_id \<Rightarrow> server \<Rightarrow> server" where
  "deleteActiveCallSync cid s = s\<lparr>activeCalls := AList.delete cid (activeCalls s)\<rparr>"

definition completeCallSync :: "call_id \<Rightarrow> call_updates \<Rightarrow> server \<Rightarrow> server" where
  "completeCallSync cid u s = updateCallInFirestore cid u (deleteActiveCallSync cid s)"

subsection \<open>HTTP endpoints that start a billing timer\<close>

datatype 'a http = Http_error nat string | Http_ok 'a

record start_req =
  sr_callId :: call_id
  sr_callerId :: user_id
  sr_recipientId :: user_id
  sr_callType :: string

record start_body =
  sb_callId :: call_id
  sb_coinRate :: rat

text \<open>\<^verbatim>\<open>POST /api/start_call_tracking\<close>.\<close>

definition start_call_tracking :: "nat \<Rightarrow> start_req \<Rightarrow> server \<Rightarrow> start_body http \<times> server" where
  "start_call_tracking now rq s =
     (if sr_callId rq = [] \<or> sr_callerId rq = [] \<or> sr_recipientId rq = [] \<or> sr_callType rq = []
      then (Http_error 400 ''Missing required fields'', s)
      else
        let coinRate' = coin_rate_of (sr_callType rq);
            (iv, s1) = setInterval (sr_callId rq) s;
            s2 = s1\<lparr>callTimers :=
                      AList.update (sr_callId rq)
                        \<lparr>interval = iv, startTime = now, durationSeconds = 0, coinRate = coinRate',
                         timer_callerId = sr_callerId rq, timer_recipientId = sr_recipientId rq,
                         timer_callType = sr_callType rq, lastHeartbeat = now, autoStarted = False\<rparr>
                        (callTimers s1)\<rparr>
        in (Http_ok \<lparr>sb_callId = sr_callId rq, sb_coinRate = coinRate'\<rparr>, s2))"

text \<open>The availability both \<^verbatim>\<open>/api/calls/start\<close> and \<^verbatim>\<open>initiate_call\<close> compute first: a
  connection that is online and whose socket is connected.\<close>

definition hasConnection :: "user_id \<Rightarrow> server \<Rightarrow> bool" where
  "hasConnection userId s =
     (case map_of (connectedUsers s) userId of
        None \<Rightarrow> False
      | Some c \<Rightarrow> isOnline c \<and> socketId c \<in> sockets s)"

definition status_if_connected :: "user_id \<Rightarrow> server \<Rightarrow> status_val" where
  "status_if_connected userId s =
     (if hasConnection userId s
      then (case map_of (userStatus s) userId of None \<Rightarrow> Available | Some st \<Rightarrow> status st)
      else Unavailable)"

text \<open>\<^verbatim>\<open>POST /api/calls/start\<close>.\<close>

definition calls_start :: "nat \<Rightarrow> start_req \<Rightarrow> server \<Rightarrow> start_body http \<times> server" where
  "calls_start now rq s =
     (if sr_callId rq = [] \<or> sr_callerId rq = [] \<or> sr_recipientId rq = [] \<or> sr_callType rq = []
      then (Http_error 400 ''Missing required fields: callId, callerId, recipientId, callType'', s)
      else if status_if_connected (sr_recipientId rq) s \<noteq> Available
      then (Http_error 400 ''Recipient is not available'', s)
      else case getUserBalance (sr_callerId rq) s of
        None \<Rightarrow> (Http_error 404 ''Caller not found'', s)
      | Some callerBalance \<Rightarrow>
          if of_int callerBalance < min_balance_of (sr_callType rq)
          then (Http_error 400 ''Insufficient balance'', s)
          else
            let coinRate' = coin_rate_of (sr_callType rq);
                s0 = saveCallToFirestore (sr_callId rq) ''initiated'' s;
                (iv, s1) = setInterval (sr_callId rq) s0;
                s2 = s1\<lparr>callTimers :=
                          AList.update (sr_callId rq)
                            \<lparr>interval = iv, startTime = now, durationSeconds = 0, coinRate = coinRate',
                             timer_callerId = sr_callerId rq, timer_recipientId = sr_recipientId rq,
                             timer_callType = sr_callType rq, lastHeartbeat = now, autoStarted = False\<rparr>
                            (callTimers s1)\<rparr>
            in (Http_ok \<lparr>sb_callId = sr_callId rq, sb_coinRate = coinRate'\<rparr>, s2))"

subsection \<open>HTTP endpoints that complete a call\<close>

record complete_req =
  cr_callId :: call_id
  cr_call_id :: call_id
  cr_callerId :: user_id
  cr_caller_id :: user_id
  cr_endReason :: string
  client_duration_seconds :: "rat option"
  client_coins_deducted :: "rat option"

record fraud_detection =
  clientDuration :: rat
  serverDuration :: nat
  differenceSeconds :: rat
  isSuspicious :: bool

record complete_body =
  cb_callId :: call_id
  cb_durationSeconds :: rat
  cb_coinsDeducted :: rat
  cb_newBalance :: "int option"
  cb_source :: string
  cb_warning :: string
  cb_fraudDetection :: "fraud_detection option"

definition finalCallId :: "complete_req \<Rightarrow> call_id" where
  "finalCallId rq = js_or (cr_callId rq) (cr_call_id rq)"

definition finalCallerId :: "complete_req \<Rightarrow> user_id" where
  "finalCallerId rq = js_or (cr_callerId rq) (cr_caller_id rq)"

definition fraud_check :: "nat \<Rightarrow> rat \<Rightarrow> fraud_detection" where
  "fraud_check serverDur clientDur =
     \<lparr>clientDuration = clientDur, serverDuration = serverDur,
      differenceSeconds = \<bar>of_nat serverDur - clientDur\<bar>,
      isSuspicious = (\<bar>of_nat serverDur - clientDur\<bar> > 5)\<rparr>"

text \<open>
  \<^verbatim>\<open>POST /api/calls/complete\<close>, first phase: the timer is looked up. Without a timer the
  request is answered at once. With one, the interval is cleared and the duration, the
  coins, the comparison with the client's duration and the payer are computed; the
  handler then awaits the ledger, holding these in local variables.
\<close>

record pending_completion =
  pc_callId :: call_id
  pc_timer :: timer
  pc_coinsDeducted :: int
  pc_fraud :: "fraud_detection option"
  pc_payer :: user_id
  pc_endReason :: string

datatype complete_step = Answered "complete_body http" | Awaiting pending_completion

definition calls_complete_start :: "complete_req \<Rightarrow> server \<Rightarrow> complete_step \<times> server" where
  "calls_complete_start rq s =
     (if finalCallId rq = [] then (Answered (Http_error 400 ''Missing required field: callId''), s)
      else case map_of (callTimers s) (finalCallId rq) of
        None \<Rightarrow>
          (case client_duration_seconds rq of
             Some cd \<Rightarrow>
               (Answered
                  (Http_ok \<lparr>cb_callId = finalCallId rq, cb_durationSeconds = cd,
                            cb_coinsDeducted = or_zero (client_coins_deducted rq), cb_newBalance = None,
                            cb_source = ''client_fallback'',
                            cb_warning = ''Server timer not found, used client-reported values'',
                            cb_fraudDetection = None\<rparr>),
                updateCallInFirestore (finalCallId rq)
                  \<lparr>upd_status = Some ''completed'', upd_durationSeconds = Some cd,
                   upd_coinsDeducted = Some (or_zero (client_coins_deducted rq)),
                   upd_endReason = Some (js_or (cr_endReason rq) ''User ended call'')\<rparr> s)
           | None \<Rightarrow>
               (Answered
                  (Http_ok \<lparr>cb_callId = finalCallId rq, cb_durationSeconds = 0, cb_coinsDeducted = 0,
                            cb_newBalance = None, cb_source = ''already_completed'',
                            cb_warning = ''Call not found - may have already been completed'',
                            cb_fraudDetection = None\<rparr>), s))
      | Some serverTimer \<Rightarrow>
          (Awaiting
             \<lparr>pc_callId = finalCallId rq, pc_timer = serverTimer,
              pc_coinsDeducted = \<lceil>of_nat (durationSeconds serverTimer) * coinRate serverTimer\<rceil>,
              pc_fraud = map_option (fraud_check (durationSeconds serverTimer)) (client_duration_seconds rq),
              pc_payer = js_or (finalCallerId rq) (timer_callerId serverTimer),
              pc_endReason = js_or (cr_endReason rq) ''User ended call''\<rparr>,
           clearInterval (interval serverTimer) s))"

text \<open>
  Second phase, on the state as it is by then: the deduction, the new balance, the mirror
  update, and only then the deletion of the timer and the reset of both statuses.
\<close>

definition calls_complete_resume :: "pending_completion \<Rightarrow> server \<Rightarrow> complete_body http \<times> server" where
  "calls_complete_resume p s1 =
     (let serverTimer = pc_timer p;
          serverDur = durationSeconds serverTimer;
          s2 = deductUserCoins (pc_payer p) (pc_coinsDeducted p) (pc_callId p) s1;
          newBalance = getUserBalance (pc_payer p) s2;
          s3 = updateCallInFirestore (pc_callId p)
                 \<lparr>upd_status = Some ''completed'', upd_durationSeconds = Some (of_nat serverDur),
                  upd_coinsDeducted = Some (of_int (pc_coinsDeducted p)),
                  upd_endReason = Some (pc_endReason p)\<rparr> s2;
          s4 = s3\<lparr>callTimers := AList.delete (pc_callId p) (callTimers s3)\<rparr>;
          s5 = set_available (timer_recipientId serverTimer)
                 (set_available (timer_callerId serverTimer) s4)
      in (Http_ok \<lparr>cb_callId = pc_callId p, cb_durationSeconds = of_nat serverDur,
                   cb_coinsDeducted = of_int (pc_coinsDeducted p), cb_newBalance = newBalance,
                   cb_source = ''server'', cb_warning = [], cb_fraudDetection = pc_fraud p\<rparr>, s5))"

text \<open>The endpoint when nothing else runs between its phases.\<close>

definition calls_complete :: "complete_req \<Rightarrow> server \<Rightarrow> complete_body http \<times> server" where
  "calls_complete rq s =
     (case calls_complete_start rq s of
        (Answered r, s1) \<Rightarrow> (r, s1)
      | (Awaiting p, s1) \<Rightarrow> calls_complete_resume p s1)"


text \<open>\<^verbatim>\<open>POST /api/complete_call\<close>, the legacy endpoint: it reads the timer, reports
  \<^verbatim>\<open>serverDuration * coinRate\<close> to two decimals and deletes the timer; it never calls the
  ledger.\<close>

record legacy_req =
  lr_call_id :: call_id
  lr_client_duration_seconds :: "rat option"
  lr_client_coins_deducted :: "rat option"

record legacy_body =
  lb_duration_seconds :: rat
  lb_coins_deducted :: rat
  lb_source :: string
  lb_duration_diff_seconds :: "rat option"
  lb_is_fraudulent :: "bool option"

definition complete_call :: "legacy_req \<Rightarrow> server \<Rightarrow> legacy_body http \<times> server" where
  "complete_call rq s =
     (if lr_call_id rq = [] then (Http_error 400 ''Missing call_id'', s)
      else case map_of (callTimers s) (lr_call_id rq) of
        None \<Rightarrow>
          (Http_ok \<lparr>lb_duration_seconds = or_zero (lr_client_duration_seconds rq),
                    lb_coins_deducted = or_zero (lr_client_coins_deducted rq),
                    lb_source = ''client'', lb_duration_diff_seconds = None,
                    lb_is_fraudulent = None\<rparr>, s)
      | Some serverTimer \<Rightarrow>
          let s1 = clearInterval (interval serverTimer) s;
              serverDur = durationSeconds serverTimer;
              serverCoinsDeducted = of_nat serverDur * coinRate serverTimer;
              durationDiff = \<bar>of_nat serverDur - or_zero (lr_client_duration_seconds rq)\<bar>;
              s2 = s1\<lparr>callTimers := AList.delete (lr_call_id rq) (callTimers s1)\<rparr>
          in (Http_ok \<lparr>lb_duration_seconds = of_nat serverDur,
                       lb_coins_deducted = toFixed2 serverCoinsDeducted,
                       lb_source = ''server'', lb_duration_diff_seconds = Some durationDiff,
                       lb_is_fraudulent = Some (durationDiff > 5)\<rparr>, s2))"

subsection \<open>The Redis call lock (scalability module)\<close>


definition releaseCallLock :: "bool \<Rightarrow> user_id \<Rightarrow> user_id \<Rightarrow> server \<Rightarrow> bool \<times> server" where
  "releaseCallLock redis_ok rid cid s =
     (if \<not> redis_ok then (False, s)
      else if map_of (call_locks s) rid = Some cid
      then (True, s\<lparr>call_locks := AList.delete rid (call_locks s)\<rparr>)
      else (False, s))"


subsection \<open>Socket handler \<^verbatim>\<open>initiate_call\<close>\<close>

record initiate_req =
  ir_callerId :: user_id
  ir_recipientId :: user_id
  ir_callType :: "string option"
  ir_callId :: call_id
  ir_roomName :: string
  ir_callerName :: string

definition status_name :: "status_val \<Rightarrow> string" where
  "status_name st =
     (case st of Available \<Rightarrow> ''available'' | Unavailable \<Rightarrow> ''unavailable'' | Busy \<Rightarrow> ''busy''
      | Ringing \<Rightarrow> ''ringing'' | Disconnected \<Rightarrow> ''disconnected'' | Fcm_reachable \<Rightarrow> ''fcm_reachable'')"

text \<open>The Firestore check of a recipient without a live socket: toggle on and a push token.\<close>

definition fcm_reachable :: "user_id \<Rightarrow> server \<Rightarrow> bool" where
  "fcm_reachable userId s =
     (firestore_ready s \<and>
      (case map_of (firestore_users s) userId of
         None \<Rightarrow> False
       | Some d \<Rightarrow> isAvailable d = Some True \<and> fcmToken d \<noteq> []))"

text \<open>The caller's display name is looked up when the request brings none of its own.\<close>

definition needs_name_lookup :: "initiate_req \<Rightarrow> bool" where
  "needs_name_lookup rq =
     (ir_callerName rq = [] \<or> ir_callerName rq = ''Unknown'' \<or> ir_callerName rq = ir_callerId rq)"

definition lookup_name :: "user_id \<Rightarrow> server \<Rightarrow> string" where
  "lookup_name userId s =
     (if \<not> firestore_ready s then ''Someone''
      else case map_of (firestore_users s) userId of
        None \<Rightarrow> ''Someone''
      | Some d \<Rightarrow> js_or (displayName d) (js_or (name d) (js_or (username d) ''Someone'')))"

text \<open>
  What the handler holds in \<^verbatim>\<open>hasConnection\<close> and \<^verbatim>\<open>actualStatus\<close> once the busy/ringing
  check has passed.
\<close>

record pending_initiate =
  pi_hasConnection :: bool
  pi_actualStatus :: status_val

datatype initiate_step = Rejected emits | Proceeding pending_initiate

text \<open>
  First phase: the required fields, the recipient's status and connection, the repair
  of a missing status, and the explicit busy/ringing check. \<open>sock\<close> is the caller's
  socket, \<open>stamp\<close> the decimal \<^verbatim>\<open>Date.now()\<close> used in generated ids.
\<close>

definition initiate_call_check ::
  "socket_id \<Rightarrow> string \<Rightarrow> initiate_req \<Rightarrow> server \<Rightarrow> initiate_step \<times> server" where
  "initiate_call_check sock stamp rq s =
     (if ir_callerId rq = [] \<or> ir_recipientId rq = []
      then (Rejected [(sock, Error_event ''Caller ID and Recipient ID are required'')], s)
      else
        let rid = ir_recipientId rq;
            recipientStatus = map_of (userStatus s) rid;
            conn = hasConnection rid s;
            actualStatus0 = status_if_connected rid s;
            s1 = (if conn \<and> recipientStatus = None then set_available rid s else s)
        in
          if (case recipientStatus of None \<Rightarrow> False | Some st \<Rightarrow> status st = Busy \<or> status st = Ringing)
          then
            (Rejected
               [(sock, Call_failed (js_or (ir_callId rq) (''call_'' @ stamp))
                         (if map_option status recipientStatus = Some Busy
                          then ''User is busy on another call'' else ''User is receiving another call'')
                         (map_option status recipientStatus) True)], s1)
          else (Proceeding \<lparr>pi_hasConnection = conn, pi_actualStatus = actualStatus0\<rparr>, s1))"


text \<open>
  Second phase, on the state as it is by then: the caller's name, the Firestore check of
  a recipient without a socket, the availability rejection, the session, and ringing the
  recipient or pushing. \<open>fcmSent\<close> is what \<^verbatim>\<open>sendIncomingCallNotification\<close> answers on the
  push-only path. Neither phase touches \<^const>\<open>call_locks\<close>.
\<close>

definition initiate_call_proceed ::
  "socket_id \<Rightarrow> string \<Rightarrow> bool \<Rightarrow> initiate_req \<Rightarrow> pending_initiate \<Rightarrow> server \<Rightarrow> emits \<times> server" where
  "initiate_call_proceed sock stamp fcmSent rq p s1 =
     (let rid = ir_recipientId rq;
          callType' = (case ir_callType rq of None \<Rightarrow> ''video'' | Some ct \<Rightarrow> ct);
          callerName' = (if needs_name_lookup rq then lookup_name (ir_callerId rq) s1
                         else ir_callerName rq);
          actualStatus =
            (if pi_hasConnection p then pi_actualStatus p
             else if fcm_reachable rid s1 then Fcm_reachable else Unavailable)
      in
        if actualStatus \<noteq> Available \<and> actualStatus \<noteq> Fcm_reachable
        then
          ([(sock, Call_failed (js_or (ir_callId rq) (''call_'' @ stamp))
                     (''Recipient is currently '' @ status_name actualStatus)
                     (Some actualStatus) False)], s1)
        else
          let finalCallId' =
                js_or (ir_callId rq)
                  (''call_'' @ ir_callerId rq @ ''_'' @ rid @ ''_'' @ stamp);
              finalRoomName = js_or (ir_roomName rq) (callType' @ ''_'' @ ir_callerId rq @ ''_'' @ rid);
              c = \<lparr>callId = finalCallId', roomName = finalRoomName, callerId = ir_callerId rq,
                   callerName = callerName', recipientId = rid, callType = callType',
                   call_state = Initiated, participants = [ir_callerId rq]\<rparr>;
              s2 = setActiveCallSync finalCallId' c ''initiated'' s1
          in
            case map_of (connectedUsers s2) rid of
              Some recipient \<Rightarrow>
                if isOnline recipient
                then
                  let s3 = setUserStatusSync rid \<lparr>status = Ringing, currentCallId = Some finalCallId'\<rparr> s2;
                      s4 = s3\<lparr>activeCalls :=
                               AList.update finalCallId' (c\<lparr>call_state := Call_ringing\<rparr>) (activeCalls s3)\<rparr>
                  in ([(socketId recipient, Incoming_call finalCallId' (ir_callerId rq) callerName'),
                       (sock, Call_initiated finalCallId' ''ringing'' True)], s4)
                else if actualStatus = Fcm_reachable
                then
                  (if fcmSent
                   then ([(sock, Call_initiated finalCallId' ''ringing_fcm'' False)],
                         s2\<lparr>activeCalls :=
                              AList.update finalCallId' (c\<lparr>call_state := Pending_fcm\<rparr>) (activeCalls s2)\<rparr>)
                   else ([(sock, Call_failed finalCallId' ''Could not reach recipient'' None False)],
                         s2\<lparr>activeCalls :=
                              AList.update finalCallId' (c\<lparr>call_state := Failed\<rparr>) (activeCalls s2)\<rparr>))
                else ([(sock, Call_failed finalCallId' ''Recipient is offline'' None False)],
                      s2\<lparr>activeCalls :=
                           AList.update finalCallId' (c\<lparr>call_state := Failed\<rparr>) (activeCalls s2)\<rparr>)
            | None \<Rightarrow>
                if actualStatus = Fcm_reachable
                then
                  (if fcmSent
                   then ([(sock, Call_initiated finalCallId' ''ringing_fcm'' False)],
                         s2\<lparr>activeCalls :=
                              AList.update finalCallId' (c\<lparr>call_state := Pending_fcm\<rparr>) (activeCalls s2)\<rparr>)
                   else ([(sock, Call_failed finalCallId' ''Could not reach recipient'' None False)],
                         s2\<lparr>activeCalls :=
                              AList.update finalCallId' (c\<lparr>call_state := Failed\<rparr>) (activeCalls s2)\<rparr>))
                else ([(sock, Call_failed finalCallId' ''Recipient is offline'' None False)],
                      s2\<lparr>activeCalls :=
                           AList.update finalCallId' (c\<lparr>call_state := Failed\<rparr>) (activeCalls s2)\<rparr>))"

text \<open>The handler when nothing else runs between its phases.\<close>

definition initiate_call ::
  "socket_id \<Rightarrow> string \<Rightarrow> bool \<Rightarrow> initiate_req \<Rightarrow> server \<Rightarrow> emits \<times> server" where
  "initiate_call sock stamp fcmSent rq s =
     (case initiate_call_check sock stamp rq s of
        (Rejected es, s1) \<Rightarrow> (es, s1)
      | (Proceeding p, s1) \<Rightarrow> initiate_call_proceed sock stamp fcmSent rq p s1)"


text \<open>
  The recipient's resolved status, the way \<^verbatim>\<open>initiate_call\<close> arrives at it: an explicit
  busy or ringing status first; otherwise, with a live connection, the explicit status
  (available when none is cached); without one, \<^verbatim>\<open>fcm_reachable\<close> when the durable
  preference is on and a push token exists, else unavailable.
\<close>

definition resolved_status :: "user_id \<Rightarrow> server \<Rightarrow> status_val" where
  "resolved_status rid s =
     (case map_of (userStatus s) rid of
        Some st \<Rightarrow>
          if status st = Busy \<or> status st = Ringing then status st
          else if hasConnection rid s then status st
          else if fcm_reachable rid s then Fcm_reachable else Unavailable
      | None \<Rightarrow>
          if hasConnection rid s then Available
          else if fcm_reachable rid s then Fcm_reachable else Unavailable)"

definition block_reason :: "status_val \<Rightarrow> string" where
  "block_reason st =
     (if st = Busy then ''User is busy on another call''
      else if st = Ringing then ''User is receiving another call''
      else ''Recipient is currently '' @ status_name st)"

text \<open>The two timeouts \<^verbatim>\<open>initiate_call\<close> arms: 30 s after ringing a connected recipient, 60 s
  after a push notification.\<close>

definition timeout_updates :: call_updates where
  "timeout_updates =
     \<lparr>upd_status = Some ''timeout'', upd_durationSeconds = None, upd_coinsDeducted = None,
      upd_endReason = None\<rparr>"

definition ring_timeout :: "socket_id \<Rightarrow> socket_id \<Rightarrow> call_id \<Rightarrow> user_id \<Rightarrow> server \<Rightarrow> emits \<times> server" where
  "ring_timeout sock recipientSocketId cid rid s =
     (case map_of (activeCalls s) cid of
        None \<Rightarrow> ([], s)
      | Some currentCall \<Rightarrow>
          if call_state currentCall = Call_ringing
          then ([(recipientSocketId, Call_timeout cid), (sock, Call_timeout cid)],
                completeCallSync cid timeout_updates (set_available rid s))
          else ([], s))"

definition fcm_timeout :: "socket_id \<Rightarrow> call_id \<Rightarrow> server \<Rightarrow> emits \<times> server" where
  "fcm_timeout sock cid s =
     (case map_of (activeCalls s) cid of
        None \<Rightarrow> ([], s)
      | Some currentCall \<Rightarrow>
          if call_state currentCall = Pending_fcm \<or> call_state currentCall = Call_ringing
          then ([(sock, Call_timeout cid)], completeCallSync cid timeout_updates s)
          else ([], s))"

subsection \<open>Socket handler \<^verbatim>\<open>accept_call\<close>\<close>

record accept_req =
  ar_callId :: call_id
  ar_callerId :: user_id
  ar_recipientId :: user_id

definition accept_call :: "socket_id \<Rightarrow> nat \<Rightarrow> accept_req \<Rightarrow> server \<Rightarrow> emits \<times> server" where
  "accept_call sock now rq s =
     (case map_of (activeCalls s) (ar_callId rq) of
        None \<Rightarrow> ([(sock, Error_event ''Call not found'')], s)
      | Some c \<Rightarrow>
          if recipientId c \<noteq> ar_recipientId rq
          then ([(sock, Error_event ''Unauthorized to accept this call'')], s)
          else
            let cid = ar_callId rq;
                s1 = setUserStatusSync (ar_callerId rq) \<lparr>status = Busy, currentCallId = Some cid\<rparr> s;
                s2 = setUserStatusSync (ar_recipientId rq) \<lparr>status = Busy, currentCallId = Some cid\<rparr> s1;
                s3 = s2\<lparr>activeCalls :=
                         AList.update cid
                           (c\<lparr>call_state := Accepted, participants := participants c @ [ar_recipientId rq]\<rparr>)
                           (activeCalls s2)\<rparr>;
                s4 = (if map_of (callTimers s3) cid = None
                      then
                        let (iv, s') = setInterval cid s3;
                            s'' = s'\<lparr>callTimers :=
                                     AList.update cid
                                       \<lparr>interval = iv, startTime = now, durationSeconds = 0,
                                        coinRate = coin_rate_of (callType c),
                                        timer_callerId = ar_callerId rq, timer_recipientId = ar_recipientId rq,
                                        timer_callType = callType c, lastHeartbeat = now, autoStarted = True\<rparr>
                                       (callTimers s')\<rparr>
                        in saveCallToFirestore cid ''active'' s''
                      else s3)
            in ((case map_of (connectedUsers s4) (ar_callerId rq) of
                   None \<Rightarrow> []
                 | Some caller \<Rightarrow> [(socketId caller, Call_accepted cid (ar_recipientId rq))]), s4))"

subsection \<open>Socket handlers \<^verbatim>\<open>decline_call\<close> and \<^verbatim>\<open>cancel_call\<close>\<close>

definition declined_updates :: call_updates where
  "declined_updates =
     \<lparr>upd_status = Some ''declined'', upd_durationSeconds = None, upd_coinsDeducted = None,
      upd_endReason = None\<rparr>"

definition decline_call :: "socket_id \<Rightarrow> accept_req \<Rightarrow> server \<Rightarrow> emits \<times> server" where
  "decline_call sock rq s =
     (case map_of (activeCalls s) (ar_callId rq) of
        None \<Rightarrow> ([(sock, Error_event ''Call not found'')], s)
      | Some c \<Rightarrow>
          let s1 = set_available (ar_recipientId rq) s
          in ((case map_of (connectedUsers s1) (ar_callerId rq) of
                 None \<Rightarrow> []
               | Some caller \<Rightarrow> [(socketId caller, Call_declined (ar_callId rq))]),
              completeCallSync (ar_callId rq) declined_updates s1))"

record cancel_req =
  xr_callId :: call_id
  xr_recipientId :: user_id
  xr_userId :: user_id

definition cancelled_updates :: call_updates where
  "cancelled_updates =
     \<lparr>upd_status = Some ''cancelled'', upd_durationSeconds = None, upd_coinsDeducted = None,
      upd_endReason = None\<rparr>"

definition cancel_call :: "cancel_req \<Rightarrow> server \<Rightarrow> emits \<times> server" where
  "cancel_call rq s =
     (case map_of (activeCalls s) (xr_callId rq) of
        Some c \<Rightarrow>
          let s1 = set_available (xr_recipientId rq) s
          in ((case map_of (connectedUsers s1) (xr_recipientId rq) of
                 None \<Rightarrow> []
               | Some recipient \<Rightarrow>
                   [(socketId recipient, Call_cancelled (xr_callId rq) (xr_userId rq)),
                    (socketId recipient, Call_ended (xr_callId rq) (xr_userId rq))]),
              completeCallSync (xr_callId rq) cancelled_updates s1)
      | None \<Rightarrow>
          ((case map_of (connectedUsers s) (xr_recipientId rq) of
              None \<Rightarrow> []
            | Some recipient \<Rightarrow>
                [(socketId recipient, Call_cancelled (xr_callId rq) (xr_userId rq)),
                 (socketId recipient, Call_ended (xr_callId rq) (xr_userId rq))]),
           updateCallInFirestore (xr_callId rq) cancelled_updates s))"

subsection \<open>Socket handler \<^verbatim>\<open>end_call\<close>\<close>

definition ended_updates :: call_updates where
  "ended_updates =
     \<lparr>upd_status = Some ''ended'', upd_durationSeconds = None, upd_coinsDeducted = None,
      upd_endReason = None\<rparr>"

text \<open>The body of \<^verbatim>\<open>call.participants.forEach\<close>: reset the status, notify a participant
  that has an entry in \<^verbatim>\<open>connectedUsers\<close>.\<close>

fun end_participants :: "call_id \<Rightarrow> user_id \<Rightarrow> user_id list \<Rightarrow> server \<Rightarrow> emits \<times> server" where
  "end_participants cid endedBy [] s = ([], s)"
| "end_participants cid endedBy (p # ps) s =
     (let s1 = set_available p s;
          e = (case map_of (connectedUsers s1) p of
                 None \<Rightarrow> []
               | Some participant \<Rightarrow> [(socketId participant, Call_ended cid endedBy)]);
          (es, s2) = end_participants cid endedBy ps s1
      in (e @ es, s2))"

definition end_call :: "socket_id \<Rightarrow> call_id \<Rightarrow> user_id \<Rightarrow> server \<Rightarrow> emits \<times> server" where
  "end_call sock cid userId s =
     (case map_of (activeCalls s) cid of
        None \<Rightarrow> ([(sock, Error_event ''Call not found'')], s)
      | Some c \<Rightarrow>
          let s1 = s\<lparr>activeCalls := AList.update cid (c\<lparr>call_state := Ended\<rparr>) (activeCalls s)\<rparr>;
              s2 = (case map_of (callTimers s1) cid of
                      None \<Rightarrow> s1
                    | Some serverTimer \<Rightarrow> clearInterval (interval serverTimer) s1);
              (es, s3) = end_participants cid userId (participants c) s2
          in (es, completeCallSync cid ended_updates s3))"

subsection \<open>Socket handler \<^verbatim>\<open>disconnect\<close>\<close>

text \<open>\<^verbatim>\<open>for (const [userId, user] of connectedUsers.entries()) if (user.socketId === socket.id)\<close>:
  the first entry with the socket, in insertion order.\<close>

definition user_of_socket :: "socket_id \<Rightarrow> server \<Rightarrow> (user_id \<times> connection) option" where
  "user_of_socket sock s = find (\<lambda>p. socketId (snd p) = sock) (connectedUsers s)"

fun notify_others :: "call_id \<Rightarrow> user_id \<Rightarrow> user_id list \<Rightarrow> server \<Rightarrow> emits \<times> server" where
  "notify_others cid userId [] s = ([], s)"
| "notify_others cid userId (p # ps) s =
     (if p \<noteq> userId
      then
        let e = (case map_of (connectedUsers s) p of
                   None \<Rightarrow> []
                 | Some participant \<Rightarrow>
                     if isOnline participant
                     then [(socketId participant, Participant_disconnected cid userId)] else []);
            s1 = set_available p s;
            (es, s2) = notify_others cid userId ps s1
        in (e @ es, s2)
      else notify_others cid userId ps s)"

text \<open>What the handler mirrors for a call that had a timer.\<close>

definition lost_updates :: "nat \<Rightarrow> int \<Rightarrow> call_updates" where
  "lost_updates dur coinsDeducted =
     \<lparr>upd_status = Some ''disconnected'', upd_durationSeconds = Some (of_nat dur),
      upd_coinsDeducted = Some (of_int coinsDeducted), upd_endReason = Some ''connection_lost''\<rparr>"

definition disconnect :: "socket_id \<Rightarrow> server \<Rightarrow> emits \<times> server" where
  "disconnect sock s =
     (case user_of_socket sock s of
        None \<Rightarrow> ([], s)
      | Some (userId, user) \<Rightarrow>
          let s0 = s\<lparr>connectedUsers := AList.update userId (user\<lparr>isOnline := False\<rparr>) (connectedUsers s)\<rparr>;
              (es, s4) =
                (case map_of (userStatus s0) userId of
                   None \<Rightarrow> ([], s0)
                 | Some currentStatus \<Rightarrow>
                     (case currentCallId currentStatus of
                        None \<Rightarrow> ([], s0)
                      | Some cid \<Rightarrow>
                          if cid = [] then ([], s0)
                          else
                            (case map_of (activeCalls s0) cid of
                               None \<Rightarrow> ([], s0)
                             | Some c \<Rightarrow>
                                 let (es, s1) = notify_others cid userId (participants c) s0
                                 in
                                   (case map_of (callTimers s1) cid of
                                      Some serverTimer \<Rightarrow>
                                        let s2 = clearInterval (interval serverTimer) s1;
                                            dur = durationSeconds serverTimer;
                                            rate = (if coinRate serverTimer = 0 then COIN_RATES_audio
                                                    else coinRate serverTimer);
                                            coinsDeducted = \<lceil>of_nat dur * rate\<rceil>;
                                            s3 = (if callerId c \<noteq> [] \<and> coinsDeducted > 0
                                                  then deductUserCoins (callerId c) coinsDeducted cid s2
                                                  else s2);
                                            s3' = completeCallSync cid (lost_updates dur coinsDeducted) s3
                                        in (es, s3'\<lparr>callTimers := AList.delete cid (callTimers s3')\<rparr>)
                                    | None \<Rightarrow>
                                        (es, completeCallSync cid
                                               \<lparr>upd_status = Some ''disconnected'',
                                                upd_durationSeconds = Some 0,
                                                upd_coinsDeducted = Some 0,
                                                upd_endReason = Some ''connection_lost_before_connect''\<rparr> s1)))))
          in (es, setUserStatusSync userId \<lparr>status = Disconnected, currentCallId = None\<rparr> s4))"

subsection \<open>Background sweeps\<close>

definition HEARTBEAT_TIMEOUT_MS :: nat where
  "HEARTBEAT_TIMEOUT_MS = 180000"

definition MAX_CONCURRENT_CALLS :: nat where
  "MAX_CONCURRENT_CALLS = 1000"

text \<open>One entry of the heartbeat monitor's snapshot of \<^verbatim>\<open>callTimers\<close>.\<close>

definition sweep_entry :: "nat \<Rightarrow> call_id \<times> timer \<Rightarrow> emits \<times> server \<Rightarrow> emits \<times> server" where
  "sweep_entry now e acc =
     (let cid = fst e; tm = snd e; es = fst acc; s = snd acc in
      if lastHeartbeat tm = 0
      then (es, s\<lparr>callTimers := map (\<lambda>p. if p = e then (cid, tm\<lparr>lastHeartbeat := now\<rparr>) else p) (callTimers s)\<rparr>)
      else if int now - int (lastHeartbeat tm) > int HEARTBEAT_TIMEOUT_MS
      then
        let s1 = clearInterval (interval tm) s;
            coinsToDeduct = \<lceil>of_nat (durationSeconds tm) * coinRate tm\<rceil>;
            s2 = deductUserCoins (timer_callerId tm) coinsToDeduct cid s1;
            s3 = updateCallInFirestore cid
                   \<lparr>upd_status = Some ''timeout_heartbeat'',
                    upd_durationSeconds = Some (of_nat (durationSeconds tm)),
                    upd_coinsDeducted = Some (of_int coinsToDeduct),
                    upd_endReason = Some ''No heartbeat received - connection lost''\<rparr> s2;
            s4 = s3\<lparr>callTimers := AList.delete cid (callTimers s3)\<rparr>;
            s5 = set_available (timer_recipientId tm) (set_available (timer_callerId tm) s4);
            e1 = (case map_of (connectedUsers s5) (timer_callerId tm) of
                    None \<Rightarrow> [] | Some c \<Rightarrow> [(socketId c, Call_ended cid ''server'')]);
            e2 = (case map_of (connectedUsers s5) (timer_recipientId tm) of
                    None \<Rightarrow> [] | Some c \<Rightarrow> [(socketId c, Call_ended cid ''server'')])
        in (es @ e1 @ e2, deleteActiveCallSync cid s5)
      else (es, s))"

definition heartbeat_sweep :: "nat \<Rightarrow> server \<Rightarrow> emits \<times> server" where
  "heartbeat_sweep now s = fold (sweep_entry now) (callTimers s) ([], s)"

text \<open>An entry the heartbeat monitor closes: a heartbeat was recorded and the last one is
  older than \<^const>\<open>HEARTBEAT_TIMEOUT_MS\<close>.\<close>

definition heartbeat_lost :: "nat \<Rightarrow> timer \<Rightarrow> bool" where
  "heartbeat_lost now tm =
     (lastHeartbeat tm \<noteq> 0 \<and> int now - int (lastHeartbeat tm) > int HEARTBEAT_TIMEOUT_MS)"

text \<open>The memory guard: above \<^const>\<open>MAX_CONCURRENT_CALLS\<close> timers, the oldest by
  \<^verbatim>\<open>startTime\<close> are cleared and deleted; nothing else is done with them.\<close>

definition evict :: "call_id \<times> timer \<Rightarrow> server \<Rightarrow> server" where
  "evict e s =
     (let s1 = clearInterval (interval (snd e)) s
      in s1\<lparr>callTimers := AList.delete (fst e) (callTimers s1)\<rparr>)"

definition eviction_sweep_at :: "nat \<Rightarrow> server \<Rightarrow> server" where
  "eviction_sweep_at limit s =
     (if length (callTimers s) > limit
      then
        let sortedTimers = sort_key (\<lambda>p. startTime (snd p)) (callTimers s);
            toRemove = take (length (callTimers s) - limit) sortedTimers
        in fold evict toRemove s
      else s)"

definition eviction_sweep :: "server \<Rightarrow> server" where
  "eviction_sweep = eviction_sweep_at MAX_CONCURRENT_CALLS"

subsection \<open>Sample states\<close>

definition empty_server :: server where
  "empty_server =
     \<lparr>activeCalls = [], connectedUsers = [], userStatus = [], callTimers = [], intervals = [],
      next_interval = 0, sockets = {}, firestore_ready = True, firestore_users = [],
      firestore_calls = [], call_locks = [], deduct_calls = []\<rparr>"

definition timer37 :: timer where
  "timer37 =
     \<lparr>interval = 0, startTime = 1000, durationSeconds = 37, coinRate = COIN_RATES_audio,
      timer_callerId = ''C'', timer_recipientId = ''R'', timer_callType = ''audio'',
      lastHeartbeat = 1000, autoStarted = True\<rparr>"

definition doc200 :: user_doc where
  "doc200 =
     \<lparr>coinBalance = Some 200, coins = None, isAvailable = None, fcmToken = [],
      displayName = ''Caller C'', name = [], username = []\<rparr>"

definition billing37 :: server where
  "billing37 =
     empty_server\<lparr>callTimers := [(''call1'', timer37)], intervals := [(0, ''call1'')],
       next_interval := 1, firestore_users := [(''C'', doc200)]\<rparr>"

definition legacy37 :: legacy_req where
  "legacy37 = \<lparr>lr_call_id = ''call1'', lr_client_duration_seconds = None, lr_client_coins_deducted = None\<rparr>"

definition complete37 :: complete_req where
  "complete37 =
     \<lparr>cr_callId = ''call1'', cr_call_id = [], cr_callerId = ''C'', cr_caller_id = [],
      cr_endReason = [], client_duration_seconds = None, client_coins_deducted = None\<rparr>"

definition timer40 :: timer where
  "timer40 =
     \<lparr>interval = 0, startTime = 1000, durationSeconds = 40, coinRate = COIN_RATES_audio,
      timer_callerId = ''C'', timer_recipientId = ''R'', timer_callType = ''audio'',
      lastHeartbeat = 1000, autoStarted = False\<rparr>"

definition online_R :: connection where
  "online_R = \<lparr>socketId = ''sockR'', userType = ''female'', isOnline = True\<rparr>"

definition online_C :: connection where
  "online_C = \<lparr>socketId = ''sockC'', userType = ''male'', isOnline = True\<rparr>"

text \<open>A timer started 40 seconds ago for \<open>call1\<close>; the recipient is connected and available.\<close>

definition started40 :: server where
  "started40 =
     empty_server\<lparr>connectedUsers := [(''C'', online_C), (''R'', online_R)],
       userStatus := [(''R'', \<lparr>status = Available, currentCallId = None\<rparr>)],
       callTimers := [(''call1'', timer40)], intervals := [(0, ''call1'')], next_interval := 1,
       sockets := {''sockC'', ''sockR''},
       firestore_users := [(''C'', doc200)]\<rparr>"

definition start1 :: start_req where
  "start1 = \<lparr>sr_callId = ''call1'', sr_callerId = ''C'', sr_recipientId = ''R'', sr_callType = ''audio''\<rparr>"

definition restarted :: server where
  "restarted =
     started40\<lparr>callTimers :=
         [(''call1'', timer40\<lparr>interval := 1, startTime := 50000, durationSeconds := 0,
                         lastHeartbeat := 50000\<rparr>)],
       intervals := [(0, ''call1''), (1, ''call1'')], next_interval := 2\<rparr>"

definition complete_again :: complete_req where
  "complete_again = complete37\<lparr>client_duration_seconds := Some 100, client_coins_deducted := Some 3\<rparr>"

definition completed_doc :: call_doc where
  "completed_doc =
     \<lparr>doc_status = ''completed'', doc_durationSeconds = 37, doc_coinsDeducted = 8,
      doc_endReason = ''User ended call''\<rparr>"

text \<open>No timer is left for \<open>call1\<close>; its mirror document says 37 seconds, 8 coins.\<close>

definition no_timer :: server where
  "no_timer = empty_server\<lparr>firestore_users := [(''C'', doc200)],
                firestore_calls := [(''call1'', completed_doc)]\<rparr>"

definition complete_claiming_30 :: complete_req where
  "complete_claiming_30 = complete37\<lparr>client_duration_seconds := Some 30\<rparr>"

text \<open>Caller \<open>C\<close> and recipient \<open>R\<close> are connected and available; \<open>C\<close> owns 200 coins.\<close>

definition idle :: server where
  "idle =
     empty_server\<lparr>connectedUsers := [(''C'', online_C), (''R'', online_R)],
       userStatus := [(''C'', \<lparr>status = Available, currentCallId = None\<rparr>),
                      (''R'', \<lparr>status = Available, currentCallId = None\<rparr>)],
       sockets := {''sockC'', ''sockR''},
       firestore_users := [(''C'', doc200)]\<rparr>"

definition init1 :: initiate_req where
  "init1 = \<lparr>ir_callerId = ''C'', ir_recipientId = ''R'', ir_callType = Some ''audio'',
            ir_callId = ''call1'', ir_roomName = [], ir_callerName = []\<rparr>"

definition init2 :: initiate_req where
  "init2 = \<lparr>ir_callerId = ''D'', ir_recipientId = ''R'', ir_callType = Some ''audio'',
            ir_callId = ''call2'', ir_roomName = [], ir_callerName = []\<rparr>"

definition call1 :: call where
  "call1 = \<lparr>callId = ''call1'', roomName = ''audio_C_R'', callerId = ''C'',
            callerName = ''Caller C'', recipientId = ''R'', callType = ''audio'',
            call_state = Call_ringing, participants = [''C'']\<rparr>"

definition initiated_doc :: call_doc where
  "initiated_doc =
     \<lparr>doc_status = ''initiated'', doc_durationSeconds = 0, doc_coinsDeducted = 0, doc_endReason = []\<rparr>"

text \<open>\<open>C\<close> has called \<open>R\<close>: \<open>call1\<close> rings.\<close>

definition ringing1 :: server where
  "ringing1 =
     idle\<lparr>activeCalls := [(''call1'', call1)],
       userStatus := [(''C'', \<lparr>status = Available, currentCallId = None\<rparr>),
                      (''R'', \<lparr>status = Ringing, currentCallId = Some ''call1''\<rparr>)],
       firestore_calls := [(''call1'', initiated_doc)]\<rparr>"

definition push_doc :: user_doc where
  "push_doc =
     \<lparr>coinBalance = None, coins = None, isAvailable = Some True, fcmToken = ''token-R'',
      displayName = [], name = [], username = []\<rparr>"

text \<open>\<open>R\<close> has no socket; the preference is on and a push token is stored.\<close>

definition push_only :: server where
  "push_only =
     empty_server\<lparr>connectedUsers := [(''C'', online_C)],
       userStatus := [(''C'', \<lparr>status = Available, currentCallId = None\<rparr>)],
       sockets := {''sockC''},
       firestore_users := [(''C'', doc200), (''R'', push_doc)]\<rparr>"

text \<open>The push to \<open>R\<close> has failed: \<open>call1\<close> stays in \<^verbatim>\<open>activeCalls\<close> with status failed.\<close>

definition failed1 :: server where
  "failed1 =
     push_only\<lparr>activeCalls := [(''call1'', call1\<lparr>call_state := Failed\<rparr>)],
       firestore_calls := [(''call1'', initiated_doc)]\<rparr>"

definition accept1 :: accept_req where
  "accept1 = \<lparr>ar_callId = ''call1'', ar_callerId = ''C'', ar_recipientId = ''R''\<rparr>"

definition busy1 :: user_status where
  "busy1 = \<lparr>status = Busy, currentCallId = Some ''call1''\<rparr>"

definition fresh_timer :: timer where
  "fresh_timer =
     \<lparr>interval = 0, startTime = 2000, durationSeconds = 0, coinRate = COIN_RATES_audio,
      timer_callerId = ''C'', timer_recipientId = ''R'', timer_callType = ''audio'',
      lastHeartbeat = 2000, autoStarted = True\<rparr>"

definition accepted1 :: call where
  "accepted1 = call1\<lparr>call_state := Accepted, participants := [''C'', ''R'']\<rparr>"

definition active_doc :: call_doc where
  "active_doc = initiated_doc\<lparr>doc_status := ''active''\<rparr>"

text \<open>\<open>call1\<close> between \<open>C\<close> and \<open>R\<close> was accepted 40 seconds ago; its timer runs.\<close>

definition active40 :: server where
  "active40 =
     idle\<lparr>activeCalls := [(''call1'', accepted1)],
       userStatus := [(''C'', busy1), (''R'', busy1)],
       callTimers := [(''call1'', timer40\<lparr>autoStarted := True\<rparr>)],
       intervals := [(0, ''call1'')], next_interval := 1,
       firestore_calls := [(''call1'', active_doc)]\<rparr>"

definition available0 :: user_status where
  "available0 = \<lparr>status = Available, currentCallId = None\<rparr>"

text \<open>Two timers; the one of \<open>call2\<close> started first.\<close>

definition two_timers :: server where
  "two_timers =
     empty_server\<lparr>callTimers := [(''call1'', timer40), (''call2'', timer37\<lparr>interval := 1, startTime := 500\<rparr>)],
       intervals := [(0, ''call1''), (1, ''call2'')], next_interval := 2,
       firestore_users := [(''C'', doc200)]\<rparr>"

definition disconnected0 :: user_status where
  "disconnected0 = \<lparr>status = Disconnected, currentCallId = None\<rparr>"

text \<open>The state \<open>R\<close>'s dropped socket leaves behind when \<open>call1\<close> is running.\<close>

definition after_drop :: server where
  "after_drop =
     active40\<lparr>connectedUsers := [(''C'', online_C), (''R'', online_R\<lparr>isOnline := False\<rparr>)],
       userStatus := [(''C'', available0), (''R'', disconnected0)],
       activeCalls := [], callTimers := [], intervals := [],
       deduct_calls := [(''C'', 8, ''call1'')],
       firestore_users := [(''C'', doc200\<lparr>coinBalance := Some 192\<rparr>)],
       firestore_calls :=
         [(''call1'', \<lparr>doc_status = ''disconnected'', doc_durationSeconds = 40,
                      doc_coinsDeducted = 8, doc_endReason = ''connection_lost''\<rparr>)]\<rparr>"








definition cancel1 :: cancel_req where
  "cancel1 = \<lparr>xr_callId = ''call1'', xr_recipientId = ''R'', xr_userId = ''C''\<rparr>"

section \<open>Properties\<close>

subsection \<open>What each wrapper leaves alone\<close>

lemma setUserStatusSync_fields [simp]:
  "activeCalls (setUserStatusSync u st s) = activeCalls s"
  "connectedUsers (setUserStatusSync u st s) = connectedUsers s"
  "userStatus (setUserStatusSync u st s) = AList.update u st (userStatus s)"
  "callTimers (setUserStatusSync u st s) = callTimers s"
  "intervals (setUserStatusSync u st s) = intervals s"
  "next_interval (setUserStatusSync u st s) = next_interval s"
  "sockets (setUserStatusSync u st s) = sockets s"
  "firestore_ready (setUserStatusSync u st s) = firestore_ready s"
  "firestore_users (setUserStatusSync u st s) = firestore_users s"
  "firestore_calls (setUserStatusSync u st s) = firestore_calls s"
  "call_locks (setUserStatusSync u st s) = call_locks s"
  "deduct_calls (setUserStatusSync u st s) = deduct_calls s"
  by (simp_all add: setUserStatusSync_def)

lemma set_available_fields [simp]:
  "activeCalls (set_available u s) = activeCalls s"
  "connectedUsers (set_available u s) = connectedUsers s"
  "userStatus (set_available u s) = AList.update u \<lparr>status = Available, currentCallId = None\<rparr> (userStatus s)"
  "callTimers (set_available u s) = callTimers s"
  "intervals (set_available u s) = intervals s"
  "next_interval (set_available u s) = next_interval s"
  "sockets (set_available u s) = sockets s"
  "firestore_ready (set_available u s) = firestore_ready s"
  "firestore_users (set_available u s) = firestore_users s"
  "firestore_calls (set_available u s) = firestore_calls s"
  "call_locks (set_available u s) = call_locks s"
  "deduct_calls (set_available u s) = deduct_calls s"
  by (simp_all add: set_available_def)

lemma clearInterval_fields [simp]:
  "activeCalls (clearInterval i s) = activeCalls s"
  "connectedUsers (clearInterval i s) = connectedUsers s"
  "userStatus (clearInterval i s) = userStatus s"
  "callTimers (clearInterval i s) = callTimers s"
  "intervals (clearInterval i s) = filter (\<lambda>p. fst p \<noteq> i) (intervals s)"
  "next_interval (clearInterval i s) = next_interval s"
  "sockets (clearInterval i s) = sockets s"
  "firestore_ready (clearInterval i s) = firestore_ready s"
  "firestore_users (clearInterval i s) = firestore_users s"
  "firestore_calls (clearInterval i s) = firestore_calls s"
  "call_locks (clearInterval i s) = call_locks s"
  "deduct_calls (clearInterval i s) = deduct_calls s"
  by (simp_all add: clearInterval_def)

lemma updateCallInFirestore_fields [simp]:
  "activeCalls (updateCallInFirestore c u s) = activeCalls s"
  "connectedUsers (updateCallInFirestore c u s) = connectedUsers s"
  "userStatus (updateCallInFirestore c u s) = userStatus s"
  "callTimers (updateCallInFirestore c u s) = callTimers s"
  "intervals (updateCallInFirestore c u s) = intervals s"
  "next_interval (updateCallInFirestore c u s) = next_interval s"
  "sockets (updateCallInFirestore c u s) = sockets s"
  "firestore_ready (updateCallInFirestore c u s) = firestore_ready s"
  "firestore_users (updateCallInFirestore c u s) = firestore_users s"
  "call_locks (updateCallInFirestore c u s) = call_locks s"
  "deduct_calls (updateCallInFirestore c u s) = deduct_calls s"
  by (simp_all add: updateCallInFirestore_def split: option.split)

lemma saveCallToFirestore_fields [simp]:
  "activeCalls (saveCallToFirestore c st s) = activeCalls s"
  "connectedUsers (saveCallToFirestore c st s) = connectedUsers s"
  "userStatus (saveCallToFirestore c st s) = userStatus s"
  "callTimers (saveCallToFirestore c st s) = callTimers s"
  "intervals (saveCallToFirestore c st s) = intervals s"
  "next_interval (saveCallToFirestore c st s) = next_interval s"
  "sockets (saveCallToFirestore c st s) = sockets s"
  "firestore_ready (saveCallToFirestore c st s) = firestore_ready s"
  "firestore_users (saveCallToFirestore c st s) = firestore_users s"
  "call_locks (saveCallToFirestore c st s) = call_locks s"
  "deduct_calls (saveCallToFirestore c st s) = deduct_calls s"
  by (simp_all add: saveCallToFirestore_def)

lemma deleteActiveCallSync_fields [simp]:
  "activeCalls (deleteActiveCallSync c s) = AList.delete c (activeCalls s)"
  "connectedUsers (deleteActiveCallSync c s) = connectedUsers s"
  "userStatus (deleteActiveCallSync c s) = userStatus s"
  "callTimers (deleteActiveCallSync c s) = callTimers s"
  "intervals (deleteActiveCallSync c s) = intervals s"
  "next_interval (deleteActiveCallSync c s) = next_interval s"
  "sockets (deleteActiveCallSync c s) = sockets s"
  "firestore_ready (deleteActiveCallSync c s) = firestore_ready s"
  "firestore_users (deleteActiveCallSync c s) = firestore_users s"
  "firestore_calls (deleteActiveCallSync c s) = firestore_calls s"
  "call_locks (deleteActiveCallSync c s) = call_locks s"
  "deduct_calls (deleteActiveCallSync c s) = deduct_calls s"
  by (simp_all add: deleteActiveCallSync_def)

lemma completeCallSync_fields [simp]:
  "activeCalls (completeCallSync c u s) = AList.delete c (activeCalls s)"
  "connectedUsers (completeCallSync c u s) = connectedUsers s"
  "userStatus (completeCallSync c u s) = userStatus s"
  "callTimers (completeCallSync c u s) = callTimers s"
  "intervals (completeCallSync c u s) = intervals s"
  "next_interval (completeCallSync c u s) = next_interval s"
  "sockets (completeCallSync c u s) = sockets s"
  "firestore_ready (completeCallSync c u s) = firestore_ready s"
  "firestore_users (completeCallSync c u s) = firestore_users s"
  "call_locks (completeCallSync c u s) = call_locks s"
  "deduct_calls (completeCallSync c u s) = deduct_calls s"
  by (simp_all add: completeCallSync_def)

lemma deductUserCoins_fields [simp]:
  "activeCalls (deductUserCoins u a c s) = activeCalls s"
  "connectedUsers (deductUserCoins u a c s) = connectedUsers s"
  "userStatus (deductUserCoins u a c s) = userStatus s"
  "callTimers (deductUserCoins u a c s) = callTimers s"
  "intervals (deductUserCoins u a c s) = intervals s"
  "next_interval (deductUserCoins u a c s) = next_interval s"
  "sockets (deductUserCoins u a c s) = sockets s"
  "firestore_ready (deductUserCoins u a c s) = firestore_ready s"
  "firestore_calls (deductUserCoins u a c s) = firestore_calls s"
  "call_locks (deductUserCoins u a c s) = call_locks s"
  "deduct_calls (deductUserCoins u a c s) = deduct_calls s @ [(u, a, c)]"
  by (simp_all add: deductUserCoins_def Let_def split: option.split)

text \<open>The ledger after a deduction depends on the ledger before it only.\<close>

lemma deductUserCoins_ledger:
  "firestore_ready s = firestore_ready s' \<Longrightarrow> firestore_users s = firestore_users s' \<Longrightarrow>
   firestore_users (deductUserCoins u a c s) = firestore_users (deductUserCoins u a c s')"
  by (simp add: deductUserCoins_def Let_def split: option.split)

subsection \<open>C1: what a completion charges\<close>

text \<open>
  Claim C1, as the code has it. For a call whose billing timer exists,
  \<^verbatim>\<open>POST /api/calls/complete\<close> reports and charges \<open>ceil(durationSeconds * coinRate)\<close>:
  the response carries that amount, exactly one call to \<^verbatim>\<open>deductUserCoins\<close> is made with
  it (payer: the caller id of the request, else the timer's), and the ledger is the one
  that deduction leaves. The legacy \<^verbatim>\<open>POST /api/complete_call\<close> on the same timer reports
  the product \<open>durationSeconds * coinRate\<close> to two decimals, not rounded up, and charges
  nothing.
\<close>

theorem billing_rounds_up_on_calls_complete:
  assumes "finalCallId rq \<noteq> []"
    and "map_of (callTimers s) (finalCallId rq) = Some t"
    and "lr_call_id lq = finalCallId rq"
  shows "(\<exists>b s'. calls_complete rq s = (Http_ok b, s')
            \<and> cb_durationSeconds b = of_nat (durationSeconds t)
            \<and> cb_coinsDeducted b = of_int \<lceil>of_nat (durationSeconds t) * coinRate t\<rceil>
            \<and> deduct_calls s' =
                deduct_calls s @
                  [(js_or (finalCallerId rq) (timer_callerId t),
                    \<lceil>of_nat (durationSeconds t) * coinRate t\<rceil>, finalCallId rq)]
            \<and> firestore_users s' =
                firestore_users
                  (deductUserCoins (js_or (finalCallerId rq) (timer_callerId t))
                     \<lceil>of_nat (durationSeconds t) * coinRate t\<rceil> (finalCallId rq) s))
       \<and> (\<exists>b s'. complete_call lq s = (Http_ok b, s')
            \<and> lb_duration_seconds b = of_nat (durationSeconds t)
            \<and> lb_coins_deducted b = toFixed2 (of_nat (durationSeconds t) * coinRate t)
            \<and> deduct_calls s' = deduct_calls s
            \<and> firestore_users s' = firestore_users s)"
proof -
  have ledger: "firestore_users (deductUserCoins u a c (clearInterval i s)) =
                firestore_users (deductUserCoins u a c s)" for u a c i
    by (rule deductUserCoins_ledger) simp_all
  have new: "\<exists>b s'. calls_complete rq s = (Http_ok b, s')
            \<and> cb_durationSeconds b = of_nat (durationSeconds t)
            \<and> cb_coinsDeducted b = of_int \<lceil>of_nat (durationSeconds t) * coinRate t\<rceil>
            \<and> deduct_calls s' =
                deduct_calls s @
                  [(js_or (finalCallerId rq) (timer_callerId t),
                    \<lceil>of_nat (durationSeconds t) * coinRate t\<rceil>, finalCallId rq)]
            \<and> firestore_users s' =
                firestore_users
                  (deductUserCoins (js_or (finalCallerId rq) (timer_callerId t))
                     \<lceil>of_nat (durationSeconds t) * coinRate t\<rceil> (finalCallId rq) s)"
    using assms(1,2) by (simp add: calls_complete_def calls_complete_start_def calls_complete_resume_def Let_def ledger)
  have old: "\<exists>b s'. complete_call lq s = (Http_ok b, s')
            \<and> lb_duration_seconds b = of_nat (durationSeconds t)
            \<and> lb_coins_deducted b = toFixed2 (of_nat (durationSeconds t) * coinRate t)
            \<and> deduct_calls s' = deduct_calls s
            \<and> firestore_users s' = firestore_users s"
    using assms by (simp add: complete_call_def Let_def)
  from new old show ?thesis by blast
qed

text \<open>
  C1 as stated fails on the legacy endpoint: for 37 seconds at 0.2 coins per second the
  ceiling is 8, and \<^verbatim>\<open>/api/complete_call\<close> answers 7.4 and deducts nothing.
\<close>

theorem legacy_complete_call_reports_fraction:
  "complete_call legacy37 billing37 =
     (Http_ok \<lparr>lb_duration_seconds = 37, lb_coins_deducted = 37 / 5, lb_source = ''server'',
        lb_duration_diff_seconds = Some 37, lb_is_fraudulent = Some True\<rparr>,
      billing37\<lparr>callTimers := [], intervals := []\<rparr>)
   \<and> \<lceil>of_nat (durationSeconds timer37) * coinRate timer37\<rceil> = 8
   \<and> deduct_calls (snd (complete_call legacy37 billing37)) = []"
  by (simp add: complete_call_def legacy37_def billing37_def empty_server_def timer37_def
        clearInterval_def toFixed2_def COIN_RATES_audio_def or_zero_def AList.delete_eq Let_def
        floor_eq_iff ceiling_eq_iff)

text \<open>The hypotheses of C1's theorem hold at 37 seconds of audio: 8 coins are charged
  and the caller's balance goes from 200 to 192.\<close>

theorem billing_rounds_up_witness:
  "finalCallId complete37 \<noteq> [] \<and>
   map_of (callTimers billing37) (finalCallId complete37) = Some timer37 \<and>
   lr_call_id legacy37 = finalCallId complete37 \<and>
   (\<exists>b s'. calls_complete complete37 billing37 = (Http_ok b, s') \<and> cb_durationSeconds b = 37 \<and>
      cb_coinsDeducted b = 8 \<and> deduct_calls s' = [(''C'', 8, ''call1'')] \<and>
      map_of (firestore_users s') ''C'' = Some (doc200\<lparr>coinBalance := Some 192\<rparr>)) \<and>
   (\<exists>b s'. complete_call legacy37 billing37 = (Http_ok b, s') \<and> lb_coins_deducted b = 37 / 5)"
proof -
  have h1: "finalCallId complete37 \<noteq> []"
    by (simp add: finalCallId_def complete37_def js_or_def)
  have h2: "map_of (callTimers billing37) (finalCallId complete37) = Some timer37"
    by (simp add: finalCallId_def complete37_def js_or_def billing37_def)
  have h3: "lr_call_id legacy37 = finalCallId complete37"
    by (simp add: finalCallId_def complete37_def js_or_def legacy37_def)
  have dur: "durationSeconds timer37 = 37"
    by (simp add: timer37_def)
  have c: "\<lceil>37 * coinRate timer37\<rceil> = 8"
    by (simp add: timer37_def COIN_RATES_audio_def ceiling_eq_iff)
  have f: "toFixed2 (37 * coinRate timer37) = 37 / 5"
    by (simp add: timer37_def COIN_RATES_audio_def toFixed2_def floor_eq_iff)
  have p: "js_or (finalCallerId complete37) (timer_callerId timer37) = ''C''"
    by (simp add: finalCallerId_def complete37_def js_or_def)
  have d: "firestore_users (deductUserCoins ''C'' 8 ''call1'' billing37)
             = [(''C'', doc200\<lparr>coinBalance := Some 192\<rparr>)]"
    by (simp add: deductUserCoins_def billing37_def empty_server_def doc200_def or_zero_def Let_def)
  have dc: "deduct_calls billing37 = []"
    by (simp add: billing37_def empty_server_def)
  have cid: "finalCallId complete37 = ''call1''"
    by (simp add: finalCallId_def complete37_def js_or_def)
  from billing_rounds_up_on_calls_complete [OF h1 h2 h3]
  show ?thesis using h1 h2 h3 by (auto simp: dur c f p d dc cid)
qed

subsection \<open>C2: starting a timer twice\<close>

text \<open>Only \<^verbatim>\<open>accept_call\<close> looks for an existing timer before it starts one: with a
  timer present it leaves the timer, the live intervals and the interval counter alone.\<close>

lemma accept_call_keeps_existing_timer:
  assumes "map_of (callTimers s) (ar_callId rq) = Some t"
  shows "callTimers (snd (accept_call sock now rq s)) = callTimers s"
    and "intervals (snd (accept_call sock now rq s)) = intervals s"
    and "next_interval (snd (accept_call sock now rq s)) = next_interval s"
  using assms by (simp_all add: accept_call_def Let_def split: option.split)

text \<open>
  Claim C2 at a failing input. A timer for \<open>call1\<close> has counted 40 seconds. A second
  start through \<^verbatim>\<open>/api/start_call_tracking\<close> or through \<^verbatim>\<open>/api/calls/start\<close> is not a
  no-op: the timer is replaced (duration 0, new start time, new interval), the first
  interval is never cleared, and from then on every second adds 2 to the duration.
\<close>

theorem second_start_overwrites_timer:
  "snd (start_call_tracking 50000 start1 started40) = restarted
   \<and> snd (calls_start 50000 start1 started40) =
       restarted\<lparr>firestore_calls :=
         [(''call1'', \<lparr>doc_status = ''initiated'', doc_durationSeconds = 0, doc_coinsDeducted = 0,
                      doc_endReason = []\<rparr>)]\<rparr>
   \<and> map_option durationSeconds (map_of (callTimers (second_elapses restarted)) ''call1'') = Some 2"
  by (simp add: start_call_tracking_def calls_start_def start1_def started40_def restarted_def
        empty_server_def timer40_def setInterval_def coin_rate_of_def COIN_RATES_audio_def
        status_if_connected_def hasConnection_def online_R_def online_C_def getUserBalance_def
        doc200_def or_zero_def min_balance_of_def MIN_CALL_DURATION_SECONDS_def
        saveCallToFirestore_def js_or_def second_elapses_def interval_callback_def Let_def)

subsection \<open>The two branches of a completion\<close>

lemma map_of_delete_same [simp]: "map_of (AList.delete k al) k = None"
  by (simp add: AList.delete_conv')

text \<open>What \<^verbatim>\<open>/api/calls/complete\<close> does when the timer exists, and when it does not.\<close>

lemma calls_complete_with_timer:
  assumes "finalCallId rq \<noteq> []" and "map_of (callTimers s) (finalCallId rq) = Some t"
  shows "calls_complete rq s =
     (let cid = finalCallId rq;
          coinsDeducted = \<lceil>of_nat (durationSeconds t) * coinRate t\<rceil>;
          payer = js_or (finalCallerId rq) (timer_callerId t);
          s2 = deductUserCoins payer coinsDeducted cid (clearInterval (interval t) s);
          s3 = updateCallInFirestore cid
                 \<lparr>upd_status = Some ''completed'', upd_durationSeconds = Some (of_nat (durationSeconds t)),
                  upd_coinsDeducted = Some (of_int coinsDeducted),
                  upd_endReason = Some (js_or (cr_endReason rq) ''User ended call'')\<rparr> s2
      in (Http_ok \<lparr>cb_callId = cid, cb_durationSeconds = of_nat (durationSeconds t),
                   cb_coinsDeducted = of_int coinsDeducted, cb_newBalance = getUserBalance payer s2,
                   cb_source = ''server'', cb_warning = [],
                   cb_fraudDetection = map_option (fraud_check (durationSeconds t)) (client_duration_seconds rq)\<rparr>,
          set_available (timer_recipientId t)
            (set_available (timer_callerId t) (s3\<lparr>callTimers := AList.delete cid (callTimers s3)\<rparr>))))"
  using assms by (simp add: calls_complete_def calls_complete_start_def calls_complete_resume_def Let_def)

lemma calls_complete_without_timer:
  assumes "finalCallId rq \<noteq> []" and "map_of (callTimers s) (finalCallId rq) = None"
  shows "\<exists>b s'. calls_complete rq s = (Http_ok b, s')
     \<and> cb_source b \<in> {''client_fallback'', ''already_completed''}
     \<and> cb_warning b \<noteq> [] \<and> cb_newBalance b = None \<and> cb_fraudDetection b = None
     \<and> (client_duration_seconds rq = None \<longrightarrow> cb_durationSeconds b = 0 \<and> cb_coinsDeducted b = 0)
     \<and> firestore_ready s' = firestore_ready s
     \<and> firestore_users s' = firestore_users s \<and> deduct_calls s' = deduct_calls s
     \<and> callTimers s' = callTimers s \<and> intervals s' = intervals s \<and> userStatus s' = userStatus s"
  using assms by (simp add: calls_complete_def calls_complete_start_def calls_complete_resume_def split: option.split)

subsection \<open>C6: the client-reported duration\<close>

text \<open>
  Claim C6, as the code has it. Let a completion through \<^verbatim>\<open>/api/calls/complete\<close> carry a
  client-reported duration \<open>cd\<close>.
  \<^item> When the call's timer exists, the answer carries the difference
    \<open>|serverDuration - cd|\<close> and the flag \<open>isSuspicious\<close>, true exactly when the difference
    exceeds 5. The duration and the coins of the answer are the server's, and whatever
    else the client reports (another duration, none, other coins), the answer differs
    in the flag only and the state left behind is the same: the flag changes no charge
    and blocks nothing.
  \<^item> When no timer exists, nothing is compared, nothing is charged, and the answer
    repeats the client's duration and coins under the source \<^verbatim>\<open>client_fallback\<close>.
\<close>

theorem fraud_flag_is_audit_only:
  assumes "finalCallId rq \<noteq> []"
    and "client_duration_seconds rq = Some cd"
  shows "case map_of (callTimers s) (finalCallId rq) of
       Some t \<Rightarrow>
         (\<exists>b s'. calls_complete rq s = (Http_ok b, s')
            \<and> cb_fraudDetection b =
                Some \<lparr>clientDuration = cd, serverDuration = durationSeconds t,
                      differenceSeconds = \<bar>of_nat (durationSeconds t) - cd\<bar>,
                      isSuspicious = (\<bar>of_nat (durationSeconds t) - cd\<bar> > 5)\<rparr>
            \<and> cb_durationSeconds b = of_nat (durationSeconds t)
            \<and> cb_coinsDeducted b = of_int \<lceil>of_nat (durationSeconds t) * coinRate t\<rceil>
            \<and> (\<forall>x y. calls_complete (rq\<lparr>client_duration_seconds := x, client_coins_deducted := y\<rparr>) s =
                     (Http_ok (b\<lparr>cb_fraudDetection := map_option (fraud_check (durationSeconds t)) x\<rparr>), s')))
     | None \<Rightarrow>
         (\<exists>b s'. calls_complete rq s = (Http_ok b, s')
            \<and> cb_fraudDetection b = None \<and> cb_source b = ''client_fallback''
            \<and> cb_durationSeconds b = cd
            \<and> cb_coinsDeducted b = or_zero (client_coins_deducted rq)
            \<and> deduct_calls s' = deduct_calls s \<and> firestore_users s' = firestore_users s)"
proof (cases "map_of (callTimers s) (finalCallId rq)")
  case None
  with assms show ?thesis by (simp add: calls_complete_def calls_complete_start_def calls_complete_resume_def)
next
  case (Some t)
  have same: "finalCallId (rq\<lparr>client_duration_seconds := x, client_coins_deducted := y\<rparr>) = finalCallId rq"
     "finalCallerId (rq\<lparr>client_duration_seconds := x, client_coins_deducted := y\<rparr>) = finalCallerId rq"
    for x y by (simp_all add: finalCallId_def finalCallerId_def)
  from Some assms show ?thesis
    by (simp add: calls_complete_with_timer same Let_def fraud_check_def)
qed

text \<open>
  C6 as stated fails when the timer is gone: the completion carries a client duration of
  100 seconds, no difference is computed and no flag is set, and the client's 100
  seconds and 3 coins are what the answer and the call's mirror document hold.
\<close>

theorem client_fallback_sets_no_flag:
  "calls_complete complete_again no_timer =
     (Http_ok \<lparr>cb_callId = ''call1'', cb_durationSeconds = 100, cb_coinsDeducted = 3,
        cb_newBalance = None, cb_source = ''client_fallback'',
        cb_warning = ''Server timer not found, used client-reported values'',
        cb_fraudDetection = None\<rparr>,
      no_timer\<lparr>firestore_calls :=
        [(''call1'', completed_doc\<lparr>doc_durationSeconds := 100, doc_coinsDeducted := 3\<rparr>)]\<rparr>)"
  by (simp add: calls_complete_def calls_complete_start_def calls_complete_resume_def complete_again_def complete37_def no_timer_def empty_server_def
        finalCallId_def js_or_def or_zero_def updateCallInFirestore_def apply_updates_def
        completed_doc_def)

text \<open>Both cases occur: a client that reports 30 seconds against the server's 37 is
  flagged (difference 7) and still charged 8; without a timer no flag is set.\<close>

theorem fraud_flag_witness:
  "finalCallId complete_claiming_30 \<noteq> [] \<and>
   client_duration_seconds complete_claiming_30 = Some 30 \<and>
   (\<exists>b s'. calls_complete complete_claiming_30 billing37 = (Http_ok b, s')
      \<and> cb_fraudDetection b =
           Some \<lparr>clientDuration = 30, serverDuration = 37, differenceSeconds = 7, isSuspicious = True\<rparr>
      \<and> cb_coinsDeducted b = 8) \<and>
   (\<exists>b s'. calls_complete complete_claiming_30 no_timer = (Http_ok b, s')
      \<and> cb_fraudDetection b = None \<and> cb_durationSeconds b = 30)"
proof -
  have h1: "finalCallId complete_claiming_30 \<noteq> []"
    by (simp add: finalCallId_def complete_claiming_30_def complete37_def js_or_def)
  have h2: "client_duration_seconds complete_claiming_30 = Some 30"
    by (simp add: complete_claiming_30_def)
  have t1: "map_of (callTimers billing37) (finalCallId complete_claiming_30) = Some timer37"
    by (simp add: finalCallId_def complete_claiming_30_def complete37_def js_or_def billing37_def)
  have t2: "map_of (callTimers no_timer) (finalCallId complete_claiming_30) = None"
    by (simp add: no_timer_def empty_server_def)
  have v: "durationSeconds timer37 = 37" "\<lceil>37 * coinRate timer37\<rceil> = 8"
    by (simp_all add: timer37_def COIN_RATES_audio_def ceiling_eq_iff)
  from fraud_flag_is_audit_only [OF h1 h2, of billing37]
  obtain b s' where a: "calls_complete complete_claiming_30 billing37 = (Http_ok b, s')"
      "cb_fraudDetection b =
           Some \<lparr>clientDuration = 30, serverDuration = 37, differenceSeconds = 7, isSuspicious = True\<rparr>"
      "cb_coinsDeducted b = 8"
    by (auto simp: t1 v)
  from fraud_flag_is_audit_only [OF h1 h2, of no_timer]
  obtain b' s'' where b: "calls_complete complete_claiming_30 no_timer = (Http_ok b', s'')"
      "cb_fraudDetection b' = None" "cb_durationSeconds b' = 30"
    by (auto simp: t2)
  show ?thesis using h1 h2 a b by simp
qed

subsection \<open>C5: an initiate at a recipient that is not available\<close>

text \<open>
  Claim C5. An initiate (caller and recipient given) whose recipient resolves to busy,
  ringing, unavailable or disconnected, that is to anything but available or
  \<^verbatim>\<open>fcm_reachable\<close>, sends the caller one \<^verbatim>\<open>call_failed\<close> whose \<^verbatim>\<open>recipient_status\<close> is that
  resolved status and whose reason names it, and changes nothing: no call session is
  created, and the whole server state is the one before.
\<close>

theorem initiate_rejected_when_not_available:
  assumes "ir_callerId rq \<noteq> []" and "ir_recipientId rq \<noteq> []"
    and "resolved_status (ir_recipientId rq) s \<noteq> Available"
    and "resolved_status (ir_recipientId rq) s \<noteq> Fcm_reachable"
  shows "initiate_call sock stamp fcmSent rq s =
     ([(sock, Call_failed (js_or (ir_callId rq) (''call_'' @ stamp))
                (block_reason (resolved_status (ir_recipientId rq) s))
                (Some (resolved_status (ir_recipientId rq) s))
                (resolved_status (ir_recipientId rq) s = Busy \<or>
                 resolved_status (ir_recipientId rq) s = Ringing))], s)"
proof (cases "map_of (userStatus s) (ir_recipientId rq)")
  case None
  show ?thesis
  proof (cases "hasConnection (ir_recipientId rq) s")
    case True
    with None assms show ?thesis by (simp add: resolved_status_def)
  next
    case False
    with None assms show ?thesis
      by (simp add: initiate_call_def initiate_call_check_def initiate_call_proceed_def resolved_status_def status_if_connected_def block_reason_def
            status_name_def Let_def)
  qed
next
  case (Some st)
  show ?thesis
  proof (cases "status st = Busy \<or> status st = Ringing")
    case True
    with Some assms show ?thesis
      by (auto simp add: initiate_call_def initiate_call_check_def initiate_call_proceed_def resolved_status_def block_reason_def Let_def)
  next
    case False
    show ?thesis
    proof (cases "hasConnection (ir_recipientId rq) s")
      case True
      with False Some assms show ?thesis
        by (simp add: initiate_call_def initiate_call_check_def initiate_call_proceed_def resolved_status_def status_if_connected_def block_reason_def
              Let_def)
    next
      case nc: False
      with False Some assms show ?thesis
        by (simp add: initiate_call_def initiate_call_check_def initiate_call_proceed_def resolved_status_def status_if_connected_def block_reason_def
              status_name_def Let_def)
    qed
  qed
qed

text \<open>\<open>R\<close> is ringing for \<open>call1\<close>; \<open>D\<close>'s initiate is rejected with \<open>ringing\<close> and the
  state, the active calls in it, stays as it is.\<close>

theorem initiate_rejected_witness:
  "ir_callerId init2 \<noteq> [] \<and> ir_recipientId init2 \<noteq> [] \<and>
   resolved_status (ir_recipientId init2) ringing1 = Ringing \<and>
   initiate_call ''sockD'' ''1700'' False init2 ringing1 =
     ([(''sockD'', Call_failed ''call2'' ''User is receiving another call'' (Some Ringing) True)], ringing1)"
proof -
  have r: "resolved_status (ir_recipientId init2) ringing1 = Ringing"
    by (simp add: resolved_status_def init2_def ringing1_def idle_def empty_server_def)
  have h: "ir_callerId init2 \<noteq> []" "ir_recipientId init2 \<noteq> []"
    by (simp_all add: init2_def)
  from initiate_rejected_when_not_available [OF h, of ringing1 "''sockD''" "''1700''" False]
  show ?thesis using h r by (simp add: block_reason_def) (simp add: init2_def js_or_def)
qed

subsection \<open>An initiate and the recipient's status\<close>

lemma setActiveCallSync_fields [simp]:
  "activeCalls (setActiveCallSync c v st s) = AList.update c v (activeCalls s)"
  "connectedUsers (setActiveCallSync c v st s) = connectedUsers s"
  "userStatus (setActiveCallSync c v st s) = userStatus s"
  "callTimers (setActiveCallSync c v st s) = callTimers s"
  "intervals (setActiveCallSync c v st s) = intervals s"
  "next_interval (setActiveCallSync c v st s) = next_interval s"
  "sockets (setActiveCallSync c v st s) = sockets s"
  "firestore_ready (setActiveCallSync c v st s) = firestore_ready s"
  "firestore_users (setActiveCallSync c v st s) = firestore_users s"
  "call_locks (setActiveCallSync c v st s) = call_locks s"
  "deduct_calls (setActiveCallSync c v st s) = deduct_calls s"
  by (simp_all add: setActiveCallSync_def)




subsection \<open>C8: what an accept checks\<close>

lemma accept_call_not_found:
  "map_of (activeCalls s) (ar_callId rq) = None \<Longrightarrow>
   accept_call sock now rq s = ([(sock, Error_event ''Call not found'')], s)"
  by (simp add: accept_call_def)

lemma accept_call_effect:
  assumes "map_of (activeCalls s) (ar_callId rq) = Some c" and "recipientId c = ar_recipientId rq"
  shows "map_of (userStatus (snd (accept_call sock now rq s))) (ar_callerId rq) =
           Some \<lparr>status = Busy, currentCallId = Some (ar_callId rq)\<rparr>"
    and "map_of (userStatus (snd (accept_call sock now rq s))) (ar_recipientId rq) =
           Some \<lparr>status = Busy, currentCallId = Some (ar_callId rq)\<rparr>"
    and "map_of (activeCalls (snd (accept_call sock now rq s))) (ar_callId rq) =
           Some (c\<lparr>call_state := Accepted, participants := participants c @ [ar_recipientId rq]\<rparr>)"
    and "map_of (callTimers (snd (accept_call sock now rq s))) (ar_callId rq) =
           (case map_of (callTimers s) (ar_callId rq) of
              Some t \<Rightarrow> Some t
            | None \<Rightarrow>
                Some \<lparr>interval = next_interval s, startTime = now, durationSeconds = 0,
                      coinRate = coin_rate_of (callType c), timer_callerId = ar_callerId rq,
                      timer_recipientId = ar_recipientId rq, timer_callType = callType c,
                      lastHeartbeat = now, autoStarted = True\<rparr>)"
  using assms
  by (simp_all add: accept_call_def setInterval_def Let_def AList.update_conv' split: option.split)

lemma timeout_removes_call:
  "map_of (activeCalls s) cid = Some c \<Longrightarrow> call_state c = Call_ringing \<Longrightarrow>
   map_of (activeCalls (snd (ring_timeout sock rsock cid rid s))) cid = None"
  "map_of (activeCalls s) cid = Some c \<Longrightarrow> call_state c = Call_ringing \<or> call_state c = Pending_fcm \<Longrightarrow>
   map_of (activeCalls (snd (fcm_timeout sock cid s))) cid = None"
  by (auto simp add: ring_timeout_def fcm_timeout_def)

text \<open>
  Claim C8, as the code has it. \<^verbatim>\<open>accept_call\<close> checks two things only: that the session
  is in \<^verbatim>\<open>activeCalls\<close> and that the accepting user is its recipient. When either fails
  the accept is answered with an error and changes no state. When both hold it takes
  effect whatever the session's status is: both users become busy on the call, the
  session becomes accepted with the recipient added to its participants, and a
  billing timer exists (the one already there, else a new one at 0 seconds). An accept
  that arrives after the ring timeout (or the push timeout) has fired is rejected,
  because the timeout has removed the session: it finds no call and changes nothing.
\<close>

theorem accept_checks_session_and_recipient_only:
  "(case map_of (activeCalls s) (ar_callId rq) of
      None \<Rightarrow> accept_call sock now rq s = ([(sock, Error_event ''Call not found'')], s)
    | Some c \<Rightarrow>
        if recipientId c \<noteq> ar_recipientId rq
        then accept_call sock now rq s = ([(sock, Error_event ''Unauthorized to accept this call'')], s)
        else
          map_of (userStatus (snd (accept_call sock now rq s))) (ar_callerId rq) =
            Some \<lparr>status = Busy, currentCallId = Some (ar_callId rq)\<rparr>
          \<and> map_of (userStatus (snd (accept_call sock now rq s))) (ar_recipientId rq) =
            Some \<lparr>status = Busy, currentCallId = Some (ar_callId rq)\<rparr>
          \<and> map_of (activeCalls (snd (accept_call sock now rq s))) (ar_callId rq) =
            Some (c\<lparr>call_state := Accepted, participants := participants c @ [ar_recipientId rq]\<rparr>)
          \<and> map_of (callTimers (snd (accept_call sock now rq s))) (ar_callId rq) =
            (case map_of (callTimers s) (ar_callId rq) of
               Some t \<Rightarrow> Some t
             | None \<Rightarrow>
                 Some \<lparr>interval = next_interval s, startTime = now, durationSeconds = 0,
                       coinRate = coin_rate_of (callType c), timer_callerId = ar_callerId rq,
                       timer_recipientId = ar_recipientId rq, timer_callType = callType c,
                       lastHeartbeat = now, autoStarted = True\<rparr>))
   \<and> (\<forall>c. map_of (activeCalls s) (ar_callId rq) = Some c \<and> call_state c = Call_ringing \<longrightarrow>
         accept_call sock now rq (snd (ring_timeout csock rsock (ar_callId rq) rid s)) =
           ([(sock, Error_event ''Call not found'')], snd (ring_timeout csock rsock (ar_callId rq) rid s)))
   \<and> (\<forall>c. map_of (activeCalls s) (ar_callId rq) = Some c
           \<and> (call_state c = Call_ringing \<or> call_state c = Pending_fcm) \<longrightarrow>
         accept_call sock now rq (snd (fcm_timeout csock (ar_callId rq) s)) =
           ([(sock, Error_event ''Call not found'')], snd (fcm_timeout csock (ar_callId rq) s)))"
proof (intro conjI allI impI)
  show "case map_of (activeCalls s) (ar_callId rq) of
      None \<Rightarrow> accept_call sock now rq s = ([(sock, Error_event ''Call not found'')], s)
    | Some c \<Rightarrow>
        if recipientId c \<noteq> ar_recipientId rq
        then accept_call sock now rq s = ([(sock, Error_event ''Unauthorized to accept this call'')], s)
        else
          map_of (userStatus (snd (accept_call sock now rq s))) (ar_callerId rq) =
            Some \<lparr>status = Busy, currentCallId = Some (ar_callId rq)\<rparr>
          \<and> map_of (userStatus (snd (accept_call sock now rq s))) (ar_recipientId rq) =
            Some \<lparr>status = Busy, currentCallId = Some (ar_callId rq)\<rparr>
          \<and> map_of (activeCalls (snd (accept_call sock now rq s))) (ar_callId rq) =
            Some (c\<lparr>call_state := Accepted, participants := participants c @ [ar_recipientId rq]\<rparr>)
          \<and> map_of (callTimers (snd (accept_call sock now rq s))) (ar_callId rq) =
            (case map_of (callTimers s) (ar_callId rq) of
               Some t \<Rightarrow> Some t
             | None \<Rightarrow>
                 Some \<lparr>interval = next_interval s, startTime = now, durationSeconds = 0,
                       coinRate = coin_rate_of (callType c), timer_callerId = ar_callerId rq,
                       timer_recipientId = ar_recipientId rq, timer_callType = callType c,
                       lastHeartbeat = now, autoStarted = True\<rparr>)"
  proof (cases "map_of (activeCalls s) (ar_callId rq)")
    case None
    then show ?thesis by (simp add: accept_call_not_found)
  next
    case (Some c)
    show ?thesis
    proof (cases "recipientId c = ar_recipientId rq")
      case True
      with Some accept_call_effect [OF Some True, of sock now] show ?thesis by simp
    next
      case False
      with Some show ?thesis by (simp add: accept_call_def)
    qed
  qed
next
  fix c assume "map_of (activeCalls s) (ar_callId rq) = Some c \<and> call_state c = Call_ringing"
  then have "map_of (activeCalls (snd (ring_timeout csock rsock (ar_callId rq) rid s))) (ar_callId rq) = None"
    using timeout_removes_call(1) by blast
  then show "accept_call sock now rq (snd (ring_timeout csock rsock (ar_callId rq) rid s)) =
           ([(sock, Error_event ''Call not found'')], snd (ring_timeout csock rsock (ar_callId rq) rid s))"
    by (rule accept_call_not_found)
next
  fix c assume "map_of (activeCalls s) (ar_callId rq) = Some c
           \<and> (call_state c = Call_ringing \<or> call_state c = Pending_fcm)"
  then have "map_of (activeCalls (snd (fcm_timeout csock (ar_callId rq) s))) (ar_callId rq) = None"
    using timeout_removes_call(2) by blast
  then show "accept_call sock now rq (snd (fcm_timeout csock (ar_callId rq) s)) =
           ([(sock, Error_event ''Call not found'')], snd (fcm_timeout csock (ar_callId rq) s))"
    by (rule accept_call_not_found)
qed

lemma failed_push_leaves_session:
  "initiate_call ''sockC'' ''1700'' False init1 push_only =
     ([(''sockC'', Call_failed ''call1'' ''Could not reach recipient'' None False)], failed1)"
  by (simp add: initiate_call_def initiate_call_check_def initiate_call_proceed_def init1_def
        push_only_def failed1_def empty_server_def online_C_def status_if_connected_def
        hasConnection_def fcm_reachable_def push_doc_def js_or_def setActiveCallSync_def
        saveCallToFirestore_def call1_def initiated_doc_def needs_name_lookup_def lookup_name_def
        doc200_def Let_def)

lemma accept_of_failed_session:
  "accept_call ''sockR'' 2000 accept1 failed1 =
     ([(''sockC'', Call_accepted ''call1'' ''R'')],
      failed1\<lparr>activeCalls := [(''call1'', call1\<lparr>call_state := Accepted, participants := [''C'', ''R'']\<rparr>)],
        userStatus := [(''C'', busy1), (''R'', busy1)],
        callTimers := [(''call1'', fresh_timer)], intervals := [(0, ''call1'')], next_interval := 1,
        firestore_calls := [(''call1'', initiated_doc\<lparr>doc_status := ''active''\<rparr>)]\<rparr>)"
  by (simp add: accept_call_def accept1_def failed1_def push_only_def empty_server_def online_C_def
        setUserStatusSync_def setInterval_def saveCallToFirestore_def call1_def initiated_doc_def
        busy1_def fresh_timer_def coin_rate_of_def js_or_def Let_def)

text \<open>
  C8 as stated fails: the push to \<open>R\<close> could not be sent, so \<open>call1\<close> is a failed session,
  neither ringing nor pending. \<open>R\<close>'s accept of it is not rejected: both users become
  busy, the session becomes accepted and a billing timer starts.
\<close>

theorem accept_of_failed_session_takes_effect:
  "initiate_call ''sockC'' ''1700'' False init1 push_only =
     ([(''sockC'', Call_failed ''call1'' ''Could not reach recipient'' None False)], failed1)
   \<and> map_option call_state (map_of (activeCalls failed1) ''call1'') = Some Failed
   \<and> accept_call ''sockR'' 2000 accept1 failed1 =
     ([(''sockC'', Call_accepted ''call1'' ''R'')],
      failed1\<lparr>activeCalls := [(''call1'', call1\<lparr>call_state := Accepted, participants := [''C'', ''R'']\<rparr>)],
        userStatus := [(''C'', busy1), (''R'', busy1)],
        callTimers := [(''call1'', fresh_timer)], intervals := [(0, ''call1'')], next_interval := 1,
        firestore_calls := [(''call1'', initiated_doc\<lparr>doc_status := ''active''\<rparr>)]\<rparr>)"
  by (simp add: failed_push_leaves_session accept_of_failed_session) (simp add: failed1_def)

text \<open>On the ringing \<open>call1\<close>: \<open>R\<close>'s accept takes effect, \<open>D\<close>'s is unauthorized, an accept
  of an unknown call finds nothing, and after the ring timeout \<open>R\<close>'s accept finds no call.\<close>

theorem accept_witness:
  "map_of (activeCalls ringing1) (ar_callId accept1) = Some call1 \<and> call_state call1 = Call_ringing \<and>
   recipientId call1 = ar_recipientId accept1 \<and>
   map_of (userStatus (snd (accept_call ''sockR'' 2000 accept1 ringing1))) ''C'' = Some busy1 \<and>
   map_of (userStatus (snd (accept_call ''sockR'' 2000 accept1 ringing1))) ''R'' = Some busy1 \<and>
   map_of (callTimers (snd (accept_call ''sockR'' 2000 accept1 ringing1))) ''call1'' = Some fresh_timer \<and>
   accept_call ''sockD'' 2000 (accept1\<lparr>ar_recipientId := ''D''\<rparr>) ringing1 =
     ([(''sockD'', Error_event ''Unauthorized to accept this call'')], ringing1) \<and>
   accept_call ''sockR'' 2000 accept1 idle = ([(''sockR'', Error_event ''Call not found'')], idle) \<and>
   accept_call ''sockR'' 40000 accept1 (snd (ring_timeout ''sockC'' ''sockR'' ''call1'' ''R'' ringing1)) =
     ([(''sockR'', Error_event ''Call not found'')],
      snd (ring_timeout ''sockC'' ''sockR'' ''call1'' ''R'' ringing1))"
proof -
  have a: "map_of (activeCalls ringing1) ''call1'' = Some call1"
          "map_of (activeCalls idle) ''call1'' = None"
          "map_of (callTimers ringing1) ''call1'' = None"
          "next_interval ringing1 = 0"
    by (simp_all add: ringing1_def idle_def empty_server_def)
  have c: "call_state call1 = Call_ringing" "recipientId call1 = ar_recipientId accept1"
          "recipientId call1 = ''R''" "callType call1 = ''audio''"
    by (simp_all add: call1_def accept1_def)
  have r: "ar_callId accept1 = ''call1''" "ar_callerId accept1 = ''C''" "ar_recipientId accept1 = ''R''"
    by (simp_all add: accept1_def)
  note t1 = accept_checks_session_and_recipient_only
               [where s = ringing1 and rq = accept1 and sock = "''sockR''" and now = 2000
                  and csock = "''sockC''" and rsock = "''sockR''" and rid = "''R''"]
  note t2 = accept_checks_session_and_recipient_only
               [where s = ringing1 and rq = "accept1\<lparr>ar_recipientId := ''D''\<rparr>" and sock = "''sockD''"
                  and now = 2000 and csock = "''sockC''" and rsock = "''sockR''" and rid = "''R''"]
  note t3 = accept_checks_session_and_recipient_only
               [where s = idle and rq = accept1 and sock = "''sockR''" and now = 2000
                  and csock = "''sockC''" and rsock = "''sockR''" and rid = "''R''"]
  note t4 = accept_checks_session_and_recipient_only
               [where s = ringing1 and rq = accept1 and sock = "''sockR''" and now = 40000
                  and csock = "''sockC''" and rsock = "''sockR''" and rid = "''R''"]
  have e1: "map_of (userStatus (snd (accept_call ''sockR'' 2000 accept1 ringing1))) ''C'' = Some busy1"
           "map_of (userStatus (snd (accept_call ''sockR'' 2000 accept1 ringing1))) ''R'' = Some busy1"
           "map_of (callTimers (snd (accept_call ''sockR'' 2000 accept1 ringing1))) ''call1'' = Some fresh_timer"
    using t1 by (simp_all add: a c r busy1_def fresh_timer_def coin_rate_of_def)
  have e2: "accept_call ''sockD'' 2000 (accept1\<lparr>ar_recipientId := ''D''\<rparr>) ringing1 =
     ([(''sockD'', Error_event ''Unauthorized to accept this call'')], ringing1)"
    using t2 by (simp add: a c r)
  have e3: "accept_call ''sockR'' 2000 accept1 idle = ([(''sockR'', Error_event ''Call not found'')], idle)"
    using t3 by (simp add: a r)
  have e4: "accept_call ''sockR'' 40000 accept1 (snd (ring_timeout ''sockC'' ''sockR'' ''call1'' ''R'' ringing1)) =
     ([(''sockR'', Error_event ''Call not found'')],
      snd (ring_timeout ''sockC'' ''sockR'' ''call1'' ''R'' ringing1))"
    using t4 by (simp add: a c r)
  from e1 e2 e3 e4 show ?thesis by (simp add: a c r)
qed

subsection \<open>C10: what \<^verbatim>\<open>end_call\<close> leaves alone\<close>

lemma firestore_calls_updateCallInFirestore:
  "firestore_calls (updateCallInFirestore c u s) =
     (if firestore_ready s
      then (case map_of (firestore_calls s) c of
              None \<Rightarrow> firestore_calls s
            | Some d \<Rightarrow> AList.update c (apply_updates u d) (firestore_calls s))
      else firestore_calls s)"
  by (simp add: updateCallInFirestore_def split: option.split)

lemma firestore_calls_completeCallSync:
  "firestore_calls (completeCallSync c u s) = firestore_calls (updateCallInFirestore c u s)"
  by (simp add: completeCallSync_def firestore_calls_updateCallInFirestore split: option.split)

lemma end_participants_fields [simp]:
  "activeCalls (snd (end_participants cid u ps s)) = activeCalls s"
  "connectedUsers (snd (end_participants cid u ps s)) = connectedUsers s"
  "callTimers (snd (end_participants cid u ps s)) = callTimers s"
  "intervals (snd (end_participants cid u ps s)) = intervals s"
  "next_interval (snd (end_participants cid u ps s)) = next_interval s"
  "sockets (snd (end_participants cid u ps s)) = sockets s"
  "firestore_ready (snd (end_participants cid u ps s)) = firestore_ready s"
  "firestore_users (snd (end_participants cid u ps s)) = firestore_users s"
  "firestore_calls (snd (end_participants cid u ps s)) = firestore_calls s"
  "call_locks (snd (end_participants cid u ps s)) = call_locks s"
  "deduct_calls (snd (end_participants cid u ps s)) = deduct_calls s"
  by (induction ps arbitrary: s; simp add: Let_def split_beta)+

lemma end_participants_status:
  "map_of (userStatus (snd (end_participants cid u ps s))) p =
     (if p \<in> set ps then Some \<lparr>status = Available, currentCallId = None\<rparr> else map_of (userStatus s) p)"
  by (induction ps arbitrary: s) (auto simp add: Let_def split_beta AList.update_conv')

lemma end_participants_events:
  "fst (end_participants cid u ps s) =
     concat (map (\<lambda>p. case map_of (connectedUsers s) p of
                         None \<Rightarrow> []
                       | Some participant \<Rightarrow> [(socketId participant, Call_ended cid u)]) ps)"
  by (induction ps arbitrary: s) (simp_all add: Let_def split_beta)

lemma end_running_call:
  "end_call ''sockC'' ''call1'' ''C'' active40 =
     ([(''sockC'', Call_ended ''call1'' ''C''), (''sockR'', Call_ended ''call1'' ''C'')],
      active40\<lparr>activeCalls := [], userStatus := [(''C'', available0), (''R'', available0)],
        intervals := [], firestore_calls := [(''call1'', active_doc\<lparr>doc_status := ''ended''\<rparr>)]\<rparr>)"
  by (simp add: end_call_def active40_def idle_def empty_server_def accepted1_def call1_def
        timer40_def clearInterval_def set_available_def setUserStatusSync_def online_C_def
        online_R_def completeCallSync_def deleteActiveCallSync_def updateCallInFirestore_def
        apply_updates_def ended_updates_def busy1_def available0_def active_doc_def
        initiated_doc_def AList.delete_eq Let_def)

text \<open>The heartbeat monitor, run 199 seconds after the last heartbeat, finds the timer
  that \<^verbatim>\<open>end_call\<close> has left behind, charges its 40 seconds (8 coins) and deletes it.\<close>

lemma sweep_bills_ended_call:
  "deduct_calls (snd (heartbeat_sweep 200000 (snd (end_call ''sockC'' ''call1'' ''C'' active40))))
     = [(''C'', 8, ''call1'')]
   \<and> callTimers (snd (heartbeat_sweep 200000 (snd (end_call ''sockC'' ''call1'' ''C'' active40)))) = []
   \<and> firestore_users (snd (heartbeat_sweep 200000 (snd (end_call ''sockC'' ''call1'' ''C'' active40))))
     = [(''C'', doc200\<lparr>coinBalance := Some 192\<rparr>)]"
  by (simp add: end_running_call)
     (simp add: heartbeat_sweep_def sweep_entry_def active40_def idle_def empty_server_def
        timer40_def HEARTBEAT_TIMEOUT_MS_def COIN_RATES_audio_def clearInterval_def
        deductUserCoins_def doc200_def or_zero_def updateCallInFirestore_def apply_updates_def
        active_doc_def initiated_doc_def set_available_def setUserStatusSync_def
        deleteActiveCallSync_def online_C_def online_R_def available0_def
        AList.delete_eq ceiling_eq_iff Let_def)

text \<open>
  Claim C10. An \<^verbatim>\<open>end_call\<close> for a call that is in \<^verbatim>\<open>activeCalls\<close> stops the per-second
  tick (the timer's interval is no longer live), removes the session from
  \<^verbatim>\<open>activeCalls\<close> and mirrors the status \<^verbatim>\<open>ended\<close>, resets every participant to available and
  sends \<^verbatim>\<open>call_ended\<close> to every participant with a connection entry. Everything else stays:
  the ledger is not called and no balance changes, the \<^verbatim>\<open>callTimers\<close> map is exactly the
  one before, and the connections, the locks and the status of every other user are
  untouched. Since the call's timer, if any, is still there, a later
  \<^verbatim>\<open>/api/calls/complete\<close> for the call charges \<open>ceil(durationSeconds * coinRate)\<close>.
\<close>

theorem end_call_bills_nothing:
  assumes "map_of (activeCalls s) cid = Some c"
  shows "\<exists>es s'. end_call sock cid u s = (es, s')
     \<and> deduct_calls s' = deduct_calls s
     \<and> firestore_users s' = firestore_users s
     \<and> (\<forall>x. getUserBalance x s' = getUserBalance x s)
     \<and> callTimers s' = callTimers s
     \<and> intervals s' =
          (case map_of (callTimers s) cid of
             None \<Rightarrow> intervals s
           | Some t \<Rightarrow> filter (\<lambda>p. fst p \<noteq> interval t) (intervals s))
     \<and> activeCalls s' = AList.delete cid (activeCalls s)
     \<and> map_of (activeCalls s') cid = None
     \<and> firestore_calls s' = firestore_calls (updateCallInFirestore cid ended_updates s)
     \<and> (\<forall>p. map_of (userStatus s') p =
              (if p \<in> set (participants c) then Some \<lparr>status = Available, currentCallId = None\<rparr>
               else map_of (userStatus s) p))
     \<and> es = concat (map (\<lambda>p. case map_of (connectedUsers s) p of
                                 None \<Rightarrow> []
                               | Some participant \<Rightarrow> [(socketId participant, Call_ended cid u)])
                        (participants c))
     \<and> connectedUsers s' = connectedUsers s \<and> call_locks s' = call_locks s
     \<and> sockets s' = sockets s \<and> next_interval s' = next_interval s
     \<and> (\<forall>t rq. map_of (callTimers s) cid = Some t \<and> finalCallId rq = cid \<and> cid \<noteq> [] \<longrightarrow>
           deduct_calls (snd (calls_complete rq s')) =
             deduct_calls s @
               [(js_or (finalCallerId rq) (timer_callerId t),
                 \<lceil>of_nat (durationSeconds t) * coinRate t\<rceil>, cid)])"
proof -
  define s2 where
    "s2 = (case map_of (callTimers s) cid of
             None \<Rightarrow> s\<lparr>activeCalls := AList.update cid (c\<lparr>call_state := Ended\<rparr>) (activeCalls s)\<rparr>
           | Some serverTimer \<Rightarrow>
               clearInterval (interval serverTimer)
                 (s\<lparr>activeCalls := AList.update cid (c\<lparr>call_state := Ended\<rparr>) (activeCalls s)\<rparr>))"
  have e: "end_call sock cid u s =
            (fst (end_participants cid u (participants c) s2),
             completeCallSync cid ended_updates (snd (end_participants cid u (participants c) s2)))"
    using assms by (simp add: end_call_def s2_def Let_def split_beta)
  have f: "activeCalls s2 = AList.update cid (c\<lparr>call_state := Ended\<rparr>) (activeCalls s)"
     "connectedUsers s2 = connectedUsers s" "callTimers s2 = callTimers s"
     "userStatus s2 = userStatus s" "next_interval s2 = next_interval s" "sockets s2 = sockets s"
     "firestore_ready s2 = firestore_ready s" "firestore_users s2 = firestore_users s"
     "firestore_calls s2 = firestore_calls s" "call_locks s2 = call_locks s"
     "deduct_calls s2 = deduct_calls s"
     "intervals s2 =
          (case map_of (callTimers s) cid of
             None \<Rightarrow> intervals s
           | Some t \<Rightarrow> filter (\<lambda>p. fst p \<noteq> interval t) (intervals s))"
    by (simp_all add: s2_def split: option.split)
  have later: "deduct_calls
           (snd (calls_complete rq
              (completeCallSync cid ended_updates (snd (end_participants cid u (participants c) s2))))) =
         deduct_calls s @
           [(js_or (finalCallerId rq) (timer_callerId t),
             \<lceil>of_nat (durationSeconds t) * coinRate t\<rceil>, cid)]"
    if "map_of (callTimers s) cid = Some t \<and> finalCallId rq = cid \<and> cid \<noteq> []" for t rq
  proof -
    from that have "finalCallId rq \<noteq> []"
      and "map_of (callTimers (completeCallSync cid ended_updates
                     (snd (end_participants cid u (participants c) s2)))) (finalCallId rq) = Some t"
      by (simp_all add: f)
    from calls_complete_with_timer [OF this] that show ?thesis
      by (simp add: Let_def f)
  qed
  show ?thesis
    unfolding e
    by (intro exI [of _ "fst (end_participants cid u (participants c) s2)"]
          exI [of _ "completeCallSync cid ended_updates (snd (end_participants cid u (participants c) s2))"]
          conjI allI impI later)
       (simp_all add: f end_participants_status end_participants_events AList.delete_update_same
          getUserBalance_def firestore_calls_completeCallSync firestore_calls_updateCallInFirestore
          cong: option.case_cong)
qed

text \<open>\<open>C\<close> ends the running \<open>call1\<close>: both users are available again, nobody is charged,
  and the timer stays in \<^verbatim>\<open>callTimers\<close> at its 40 seconds with no live interval; a
  completion over HTTP afterwards charges 8 coins.\<close>

theorem end_call_witness:
  "map_of (activeCalls active40) ''call1'' = Some accepted1 \<and>
   end_call ''sockC'' ''call1'' ''C'' active40 =
     ([(''sockC'', Call_ended ''call1'' ''C''), (''sockR'', Call_ended ''call1'' ''C'')],
      active40\<lparr>activeCalls := [], userStatus := [(''C'', available0), (''R'', available0)],
        intervals := [], firestore_calls := [(''call1'', active_doc\<lparr>doc_status := ''ended''\<rparr>)]\<rparr>) \<and>
   map_of (callTimers active40) ''call1'' = Some (timer40\<lparr>autoStarted := True\<rparr>) \<and>
   finalCallId complete37 = ''call1'' \<and>
   deduct_calls (snd (calls_complete complete37 (snd (end_call ''sockC'' ''call1'' ''C'' active40)))) =
     [(''C'', 8, ''call1'')]"
proof -
  have a: "map_of (activeCalls active40) ''call1'' = Some accepted1"
    by (simp add: active40_def)
  have h: "map_of (callTimers active40) ''call1'' = Some (timer40\<lparr>autoStarted := True\<rparr>)"
          "finalCallId complete37 = ''call1''" "''call1'' \<noteq> []"
    by (simp_all add: active40_def finalCallId_def complete37_def js_or_def)
  have v: "js_or (finalCallerId complete37) (timer_callerId (timer40\<lparr>autoStarted := True\<rparr>)) = ''C''"
          "\<lceil>of_nat (durationSeconds (timer40\<lparr>autoStarted := True\<rparr>)) * coinRate (timer40\<lparr>autoStarted := True\<rparr>)\<rceil> = 8"
          "deduct_calls active40 = []"
    by (simp_all add: finalCallerId_def complete37_def js_or_def timer40_def
          COIN_RATES_audio_def ceiling_eq_iff active40_def idle_def empty_server_def)
  from end_call_bills_nothing [OF a, of "''sockC''" "''C''"]
  obtain es s' where r: "end_call ''sockC'' ''call1'' ''C'' active40 = (es, s')"
    and l: "\<forall>t rq. map_of (callTimers active40) ''call1'' = Some t \<and> finalCallId rq = ''call1'' \<and>
                  ''call1'' \<noteq> [] \<longrightarrow>
             deduct_calls (snd (calls_complete rq s')) =
               deduct_calls active40 @
                 [(js_or (finalCallerId rq) (timer_callerId t),
                   \<lceil>of_nat (durationSeconds t) * coinRate t\<rceil>, ''call1'')]"
    by (elim exE conjE) (rule that, assumption+)
  from l h have "deduct_calls (snd (calls_complete complete37 s')) =
               deduct_calls active40 @
                 [(js_or (finalCallerId complete37) (timer_callerId (timer40\<lparr>autoStarted := True\<rparr>)),
                   \<lceil>of_nat (durationSeconds (timer40\<lparr>autoStarted := True\<rparr>)) * coinRate (timer40\<lparr>autoStarted := True\<rparr>)\<rceil>,
                   ''call1'')]"
    by blast
  then have b: "deduct_calls (snd (calls_complete complete37 s')) = [(''C'', 8, ''call1'')]"
    unfolding v by simp
  note end_running_call
  with a r b h show ?thesis by simp
qed

subsection \<open>The memory guard\<close>

lemma evict_fields [simp]:
  "deduct_calls (evict e s) = deduct_calls s"
  "firestore_users (evict e s) = firestore_users s"
  "firestore_ready (evict e s) = firestore_ready s"
  "activeCalls (evict e s) = activeCalls s"
  "callTimers (evict e s) = AList.delete (fst e) (callTimers s)"
  by (simp_all add: evict_def Let_def)

lemma fold_evict_fields [simp]:
  "deduct_calls (fold evict es s) = deduct_calls s"
  "firestore_users (fold evict es s) = firestore_users s"
  "firestore_ready (fold evict es s) = firestore_ready s"
  "activeCalls (fold evict es s) = activeCalls s"
  by (induction es arbitrary: s; simp)+

lemma fold_evict_timers:
  "map_of (callTimers (fold evict es s)) k =
     (if k \<in> fst ` set es then None else map_of (callTimers s) k)"
  by (induction es arbitrary: s) (auto simp add: AList.delete_conv')

text \<open>The timers the memory guard removes at a given limit.\<close>

lemma eviction_sweep_at_effect:
  "deduct_calls (eviction_sweep_at limit s) = deduct_calls s"
  "firestore_users (eviction_sweep_at limit s) = firestore_users s"
  "map_of (callTimers (eviction_sweep_at limit s)) k =
     (if limit < length (callTimers s) \<and>
         k \<in> fst ` set (take (length (callTimers s) - limit)
                          (sort_key (\<lambda>p. startTime (snd p)) (callTimers s)))
      then None else map_of (callTimers s) k)"
  by (simp_all add: eviction_sweep_at_def Let_def fold_evict_timers)

subsection \<open>C7: a connection drops during a call\<close>

lemma notify_others_fields [simp]:
  "activeCalls (snd (notify_others cid u ps s)) = activeCalls s"
  "connectedUsers (snd (notify_others cid u ps s)) = connectedUsers s"
  "callTimers (snd (notify_others cid u ps s)) = callTimers s"
  "intervals (snd (notify_others cid u ps s)) = intervals s"
  "next_interval (snd (notify_others cid u ps s)) = next_interval s"
  "sockets (snd (notify_others cid u ps s)) = sockets s"
  "firestore_ready (snd (notify_others cid u ps s)) = firestore_ready s"
  "firestore_users (snd (notify_others cid u ps s)) = firestore_users s"
  "firestore_calls (snd (notify_others cid u ps s)) = firestore_calls s"
  "call_locks (snd (notify_others cid u ps s)) = call_locks s"
  "deduct_calls (snd (notify_others cid u ps s)) = deduct_calls s"
  by (induction ps arbitrary: s; simp add: Let_def split_beta)+

lemma notify_others_status:
  "map_of (userStatus (snd (notify_others cid u ps s))) p =
     (if p \<in> set ps \<and> p \<noteq> u then Some \<lparr>status = Available, currentCallId = None\<rparr>
      else map_of (userStatus s) p)"
  by (induction ps arbitrary: s) (auto simp add: Let_def split_beta AList.update_conv')

lemma notify_others_events:
  "fst (notify_others cid u ps s) =
     concat (map (\<lambda>p. if p \<noteq> u
                       then (case map_of (connectedUsers s) p of
                               None \<Rightarrow> []
                             | Some participant \<Rightarrow>
                                 if isOnline participant
                                 then [(socketId participant, Participant_disconnected cid u)] else [])
                       else []) ps)"
  by (induction ps arbitrary: s) (simp_all add: Let_def split_beta cong: if_cong)

lemma notify_others_events_offline:
  "fst (notify_others cid u ps (s\<lparr>connectedUsers := AList.update u x (connectedUsers s)\<rparr>)) =
   fst (notify_others cid u ps s)"
  by (simp add: notify_others_events AList.update_conv' cong: map_cong if_cong)

text \<open>
  Claim C7, as the code has it. A socket drops; its user \<open>u\<close> has a current call that is
  in \<^verbatim>\<open>activeCalls\<close> and has a billing timer (with a non-zero rate). Then the timer's
  interval is cleared and the timer and the session are deleted; the session's caller
  is charged \<open>ceil(durationSeconds * coinRate)\<close> when that is positive; the mirror gets status
  \<^verbatim>\<open>disconnected\<close>, end reason \<^verbatim>\<open>connection_lost\<close>, the duration and the coins; every other
  participant is reset to available and, when online, is sent
  \<^verbatim>\<open>participant_disconnected\<close>, the only event the handler sends; the disconnecting user's
  own status becomes \<^verbatim>\<open>disconnected\<close>, not available, and the connection is marked
  offline.
\<close>

theorem disconnect_during_call:
  assumes "user_of_socket sock s = Some (u, conn)"
    and "map_of (userStatus s) u = Some st" and "currentCallId st = Some cid" and "cid \<noteq> []"
    and "map_of (activeCalls s) cid = Some c"
    and "map_of (callTimers s) cid = Some t" and "coinRate t \<noteq> 0"
  shows "\<exists>es s'. disconnect sock s = (es, s')
     \<and> es = concat (map (\<lambda>p. if p \<noteq> u
                               then (case map_of (connectedUsers s) p of
                                       None \<Rightarrow> []
                                     | Some participant \<Rightarrow>
                                         if isOnline participant
                                         then [(socketId participant, Participant_disconnected cid u)]
                                         else [])
                               else []) (participants c))
     \<and> interval t \<notin> fst ` set (intervals s')
     \<and> map_of (callTimers s') cid = None
     \<and> map_of (activeCalls s') cid = None
     \<and> deduct_calls s' =
          deduct_calls s @
            (if callerId c \<noteq> [] \<and> 0 < \<lceil>of_nat (durationSeconds t) * coinRate t\<rceil>
             then [(callerId c, \<lceil>of_nat (durationSeconds t) * coinRate t\<rceil>, cid)] else [])
     \<and> firestore_users s' =
          (if callerId c \<noteq> [] \<and> 0 < \<lceil>of_nat (durationSeconds t) * coinRate t\<rceil>
           then firestore_users
                  (deductUserCoins (callerId c) \<lceil>of_nat (durationSeconds t) * coinRate t\<rceil> cid s)
           else firestore_users s)
     \<and> firestore_calls s' =
          firestore_calls
            (updateCallInFirestore cid
               (lost_updates (durationSeconds t) \<lceil>of_nat (durationSeconds t) * coinRate t\<rceil>) s)
     \<and> (\<forall>p. map_of (userStatus s') p =
              (if p = u then Some \<lparr>status = Disconnected, currentCallId = None\<rparr>
               else if p \<in> set (participants c) then Some \<lparr>status = Available, currentCallId = None\<rparr>
               else map_of (userStatus s) p))
     \<and> map_of (connectedUsers s') u = Some (conn\<lparr>isOnline := False\<rparr>)"
proof -
  define coins where "coins = \<lceil>of_nat (durationSeconds t) * coinRate t\<rceil>"
  define s0 where "s0 = s\<lparr>connectedUsers := AList.update u (conn\<lparr>isOnline := False\<rparr>) (connectedUsers s)\<rparr>"
  define s1 where "s1 = snd (notify_others cid u (participants c) s0)"
  define s2 where "s2 = clearInterval (interval t) s1"
  define s3 where "s3 = (if callerId c \<noteq> [] \<and> 0 < coins then deductUserCoins (callerId c) coins cid s2 else s2)"
  define s4 where "s4 = completeCallSync cid (lost_updates (durationSeconds t) coins) s3"
  define s5 where "s5 = setUserStatusSync u \<lparr>status = Disconnected, currentCallId = None\<rparr>
                          (s4\<lparr>callTimers := AList.delete cid (callTimers s4)\<rparr>)"
  have run: "disconnect sock s = (fst (notify_others cid u (participants c) s0), s5)"
    using assms
    by (simp add: disconnect_def Let_def split_beta s5_def s4_def s3_def s2_def s1_def s0_def
          coins_def lost_updates_def)
  have ev: "fst (notify_others cid u (participants c) s0) = fst (notify_others cid u (participants c) s)"
    by (simp add: s0_def notify_others_events_offline)
  have led: "firestore_users (deductUserCoins (callerId c) coins cid s2) =
             firestore_users (deductUserCoins (callerId c) coins cid s)"
    by (rule deductUserCoins_ledger) (simp_all add: s2_def s1_def s0_def)
  have f3: "firestore_ready s3 = firestore_ready s" "firestore_calls s3 = firestore_calls s"
    "deduct_calls s3 = deduct_calls s @ (if callerId c \<noteq> [] \<and> 0 < coins then [(callerId c, coins, cid)] else [])"
    "firestore_users s3 = (if callerId c \<noteq> [] \<and> 0 < coins
                            then firestore_users (deductUserCoins (callerId c) coins cid s)
                            else firestore_users s)"
    "intervals s3 = filter (\<lambda>p. fst p \<noteq> interval t) (intervals s)"
    "activeCalls s3 = activeCalls s" "callTimers s3 = callTimers s"
    "connectedUsers s3 = AList.update u (conn\<lparr>isOnline := False\<rparr>) (connectedUsers s)"
    "\<And>p. map_of (userStatus s3) p =
       (if p \<in> set (participants c) \<and> p \<noteq> u then Some \<lparr>status = Available, currentCallId = None\<rparr>
        else map_of (userStatus s) p)"
    by (simp_all add: s3_def led) (simp_all add: s2_def s1_def s0_def notify_others_status)
  show ?thesis
    unfolding run ev coins_def [symmetric]
    by (intro exI [of _ "fst (notify_others cid u (participants c) s)"] exI [of _ s5] conjI allI)
       (auto simp add: s5_def s4_def f3 notify_others_events AList.update_conv' AList.delete_conv'
          firestore_calls_completeCallSync firestore_calls_updateCallInFirestore
          cong: option.case_cong)
qed

lemma drop_during_call:
  "disconnect ''sockR'' active40 = ([(''sockC'', Participant_disconnected ''call1'' ''R'')], after_drop)"
  by (simp add: disconnect_def user_of_socket_def active40_def after_drop_def idle_def
        empty_server_def online_C_def online_R_def busy1_def accepted1_def call1_def timer40_def
        COIN_RATES_audio_def clearInterval_def set_available_def setUserStatusSync_def
        deductUserCoins_def doc200_def or_zero_def completeCallSync_def deleteActiveCallSync_def
        updateCallInFirestore_def apply_updates_def active_doc_def initiated_doc_def
        available0_def disconnected0_def lost_updates_def AList.delete_eq ceiling_eq_iff Let_def)

text \<open>
  C7 as stated fails: \<open>R\<close>'s connection drops 40 seconds into \<open>call1\<close>. The caller \<open>C\<close> is
  charged 8 and reset to available, but \<open>R\<close>, a participant, ends with status
  \<^verbatim>\<open>disconnected\<close>, and \<open>C\<close> is sent \<^verbatim>\<open>participant_disconnected\<close> and nothing else.
\<close>

theorem dropped_user_is_not_available:
  "disconnect ''sockR'' active40 = ([(''sockC'', Participant_disconnected ''call1'' ''R'')], after_drop)
   \<and> map_option status (map_of (userStatus after_drop) ''R'') = Some Disconnected
   \<and> map_option status (map_of (userStatus after_drop) ''C'') = Some Available
   \<and> deduct_calls after_drop = [(''C'', 8, ''call1'')]"
  by (simp add: drop_during_call) (simp add: after_drop_def disconnected0_def available0_def)

text \<open>The hypotheses hold when \<open>R\<close>'s socket drops during the running \<open>call1\<close>.\<close>

theorem disconnect_during_call_witness:
  "user_of_socket ''sockR'' active40 = Some (''R'', online_R) \<and>
   map_of (userStatus active40) ''R'' = Some busy1 \<and> currentCallId busy1 = Some ''call1'' \<and>
   map_of (activeCalls active40) ''call1'' = Some accepted1 \<and>
   map_of (callTimers active40) ''call1'' = Some (timer40\<lparr>autoStarted := True\<rparr>) \<and>
   coinRate (timer40\<lparr>autoStarted := True\<rparr>) \<noteq> 0 \<and>
   (\<exists>es s'. disconnect ''sockR'' active40 = (es, s')
      \<and> es = [(''sockC'', Participant_disconnected ''call1'' ''R'')]
      \<and> map_of (callTimers s') ''call1'' = None
      \<and> deduct_calls s' = [(''C'', 8, ''call1'')]
      \<and> map_of (userStatus s') ''R'' = Some disconnected0
      \<and> map_of (userStatus s') ''C'' = Some available0)"
proof -
  have h: "user_of_socket ''sockR'' active40 = Some (''R'', online_R)"
          "map_of (userStatus active40) ''R'' = Some busy1" "currentCallId busy1 = Some ''call1''"
          "''call1'' \<noteq> []"
          "map_of (activeCalls active40) ''call1'' = Some accepted1"
          "map_of (callTimers active40) ''call1'' = Some (timer40\<lparr>autoStarted := True\<rparr>)"
          "coinRate (timer40\<lparr>autoStarted := True\<rparr>) \<noteq> 0"
    by (simp_all add: user_of_socket_def active40_def idle_def empty_server_def online_C_def
          online_R_def busy1_def timer40_def COIN_RATES_audio_def)
  from disconnect_during_call [OF h]
  obtain es s' where r: "disconnect ''sockR'' active40 = (es, s')"
    by blast
  with drop_during_call have "es = [(''sockC'', Participant_disconnected ''call1'' ''R'')]" "s' = after_drop"
    by simp_all
  with r h show ?thesis
    by (simp add: after_drop_def)
qed

subsection \<open>C3: completing a call twice\<close>









subsection \<open>C4: the call lock and the ringing status\<close>























subsection \<open>C9: which operations create, delete or strand a timer\<close>

text \<open>Operations that never remove a timer.\<close>

lemma initiate_call_timers:
  "callTimers (snd (initiate_call sock stamp fcmSent rq s)) = callTimers s"
  "deduct_calls (snd (initiate_call sock stamp fcmSent rq s)) = deduct_calls s"
  by (simp_all add: initiate_call_def initiate_call_check_def initiate_call_proceed_def Let_def
        split: option.split)

lemma accept_call_timers:
  "deduct_calls (snd (accept_call sock now rq s)) = deduct_calls s"
  "map_of (callTimers (snd (accept_call sock now rq s))) k =
     (case map_of (activeCalls s) (ar_callId rq) of
        None \<Rightarrow> map_of (callTimers s) k
      | Some c \<Rightarrow>
          if recipientId c = ar_recipientId rq \<and> k = ar_callId rq \<and> map_of (callTimers s) k = None
          then Some \<lparr>interval = next_interval s, startTime = now, durationSeconds = 0,
                     coinRate = coin_rate_of (callType c), timer_callerId = ar_callerId rq,
                     timer_recipientId = ar_recipientId rq, timer_callType = callType c,
                     lastHeartbeat = now, autoStarted = True\<rparr>
          else map_of (callTimers s) k)"
  by (auto simp add: accept_call_def setInterval_def Let_def split_beta update_conv'
        split: option.split)

lemma start_call_tracking_timers:
  "deduct_calls (snd (start_call_tracking now rq s)) = deduct_calls s"
  "map_of (callTimers (snd (start_call_tracking now rq s))) k =
     (if k = sr_callId rq \<and>
         fst (start_call_tracking now rq s) =
           Http_ok \<lparr>sb_callId = sr_callId rq, sb_coinRate = coin_rate_of (sr_callType rq)\<rparr>
      then Some \<lparr>interval = next_interval s, startTime = now, durationSeconds = 0,
                 coinRate = coin_rate_of (sr_callType rq), timer_callerId = sr_callerId rq,
                 timer_recipientId = sr_recipientId rq, timer_callType = sr_callType rq,
                 lastHeartbeat = now, autoStarted = False\<rparr>
      else map_of (callTimers s) k)"
  by (simp_all add: start_call_tracking_def setInterval_def Let_def split_beta update_conv')

lemma calls_start_timers:
  "deduct_calls (snd (calls_start now rq s)) = deduct_calls s"
  "map_of (callTimers (snd (calls_start now rq s))) k =
     (if k = sr_callId rq \<and>
         fst (calls_start now rq s) =
           Http_ok \<lparr>sb_callId = sr_callId rq, sb_coinRate = coin_rate_of (sr_callType rq)\<rparr>
      then Some \<lparr>interval = next_interval s, startTime = now, durationSeconds = 0,
                 coinRate = coin_rate_of (sr_callType rq), timer_callerId = sr_callerId rq,
                 timer_recipientId = sr_recipientId rq, timer_callType = sr_callType rq,
                 lastHeartbeat = now, autoStarted = False\<rparr>
      else map_of (callTimers s) k)"
  by (simp_all add: calls_start_def setInterval_def Let_def split_beta update_conv'
        split: option.split)

text \<open>Operations that remove a session and leave its timer.\<close>

lemma decline_call_timers:
  "callTimers (snd (decline_call sock rq s)) = callTimers s"
  "deduct_calls (snd (decline_call sock rq s)) = deduct_calls s"
  "map_of (activeCalls (snd (decline_call sock rq s))) (ar_callId rq) = None"
  by (simp_all add: decline_call_def Let_def split: option.split)

lemma cancel_call_timers:
  "callTimers (snd (cancel_call rq s)) = callTimers s"
  "deduct_calls (snd (cancel_call rq s)) = deduct_calls s"
  "map_of (activeCalls (snd (cancel_call rq s))) (xr_callId rq) = None"
  by (simp_all add: cancel_call_def Let_def split: option.split)

lemma end_call_timers:
  "callTimers (snd (end_call sock cid u s)) = callTimers s"
  "deduct_calls (snd (end_call sock cid u s)) = deduct_calls s"
  "map_of (activeCalls (snd (end_call sock cid u s))) cid = None"
  by (simp_all add: end_call_def Let_def split_beta split: option.split)

lemma timeouts_timers:
  "callTimers (snd (ring_timeout sock rsock cid rid s)) = callTimers s"
  "deduct_calls (snd (ring_timeout sock rsock cid rid s)) = deduct_calls s"
  "map_of (activeCalls (snd (ring_timeout sock rsock cid rid s))) cid =
     (case map_of (activeCalls s) cid of
        None \<Rightarrow> None
      | Some c \<Rightarrow> if call_state c = Call_ringing then None else Some c)"
  "callTimers (snd (fcm_timeout sock cid s)) = callTimers s"
  "deduct_calls (snd (fcm_timeout sock cid s)) = deduct_calls s"
  "map_of (activeCalls (snd (fcm_timeout sock cid s))) cid =
     (case map_of (activeCalls s) cid of
        None \<Rightarrow> None
      | Some c \<Rightarrow> if call_state c = Pending_fcm \<or> call_state c = Call_ringing then None else Some c)"
  by (simp_all add: ring_timeout_def fcm_timeout_def split: option.split)

text \<open>The two completion endpoints.\<close>

lemma calls_complete_timers:
  "map_of (callTimers (snd (calls_complete rq s))) k =
     (if k = finalCallId rq \<and> finalCallId rq \<noteq> [] then None else map_of (callTimers s) k)"
  "deduct_calls (snd (calls_complete rq s)) =
     deduct_calls s @
       (case (if finalCallId rq = [] then None else map_of (callTimers s) (finalCallId rq)) of
          None \<Rightarrow> []
        | Some t \<Rightarrow>
            [(js_or (finalCallerId rq) (timer_callerId t),
              \<lceil>of_nat (durationSeconds t) * coinRate t\<rceil>, finalCallId rq)])"
  by (simp_all add: calls_complete_def calls_complete_start_def calls_complete_resume_def Let_def
        delete_conv' split: option.split)

lemma complete_call_timers:
  "map_of (callTimers (snd (complete_call rq s))) k =
     (if k = lr_call_id rq \<and> lr_call_id rq \<noteq> [] then None else map_of (callTimers s) k)"
  "deduct_calls (snd (complete_call rq s)) = deduct_calls s"
  "firestore_users (snd (complete_call rq s)) = firestore_users s"
  by (simp_all add: complete_call_def Let_def delete_conv' split: option.split)

text \<open>The disconnect handler: either it leaves the timers and the history of charges as
  they are, or the disconnecting user's current call has a session and a timer, and the
  handler issues the charge for it and deletes that timer.\<close>

lemma disconnect_timers:
  "callTimers (snd (disconnect sock s)) = callTimers s \<and>
   deduct_calls (snd (disconnect sock s)) = deduct_calls s
   \<or> (\<exists>u conn st cid c t.
        user_of_socket sock s = Some (u, conn) \<and> map_of (userStatus s) u = Some st \<and>
        currentCallId st = Some cid \<and> cid \<noteq> [] \<and>
        map_of (activeCalls s) cid = Some c \<and> map_of (callTimers s) cid = Some t \<and>
        callTimers (snd (disconnect sock s)) = AList.delete cid (callTimers s) \<and>
        deduct_calls (snd (disconnect sock s)) =
          deduct_calls s @
            (if callerId c \<noteq> [] \<and>
                0 < \<lceil>of_nat (durationSeconds t) *
                      (if coinRate t = 0 then COIN_RATES_audio else coinRate t)\<rceil>
             then [(callerId c,
                    \<lceil>of_nat (durationSeconds t) *
                      (if coinRate t = 0 then COIN_RATES_audio else coinRate t)\<rceil>, cid)]
             else []))"
proof (cases "user_of_socket sock s")
  case None
  then show ?thesis by (simp add: disconnect_def)
next
  case (Some p)
  obtain u conn where p: "p = (u, conn)" by (cases p)
  show ?thesis
  proof (cases "map_of (userStatus s) u")
    case None
    with Some p show ?thesis by (simp add: disconnect_def Let_def)
  next
    case st: (Some st)
    show ?thesis
    proof (cases "currentCallId st")
      case None
      with Some p st show ?thesis by (simp add: disconnect_def Let_def)
    next
      case cid: (Some cid)
      show ?thesis
      proof (cases "cid = []")
        case True
        with Some p st cid show ?thesis by (simp add: disconnect_def Let_def)
      next
        case ne: False
        show ?thesis
        proof (cases "map_of (activeCalls s) cid")
          case None
          with Some p st cid ne show ?thesis by (simp add: disconnect_def Let_def)
        next
          case c: (Some c)
          show ?thesis
          proof (cases "map_of (callTimers s) cid")
            case None
            with Some p st cid ne c show ?thesis
              by (simp add: disconnect_def Let_def split_beta)
          next
            case t: (Some t)
            with Some p st cid ne c show ?thesis
              by (simp add: disconnect_def Let_def split_beta)
          qed
        qed
      qed
    qed
  qed
qed

text \<open>The heartbeat monitor: every entry it deletes is billed first.\<close>

lemma sweep_entry_ledger:
  "deduct_calls (snd (sweep_entry now e acc)) =
     deduct_calls (snd acc) @
       (if heartbeat_lost now (snd e)
        then [(timer_callerId (snd e), \<lceil>of_nat (durationSeconds (snd e)) * coinRate (snd e)\<rceil>, fst e)]
        else [])"
  by (simp add: sweep_entry_def heartbeat_lost_def Let_def)

lemma sweep_entry_keys:
  "fst ` set (callTimers (snd (sweep_entry now e acc))) =
     (if heartbeat_lost now (snd e) then fst ` set (callTimers (snd acc)) - {fst e}
      else fst ` set (callTimers (snd acc)))"
proof -
  have m: "map fst (map (\<lambda>p. if p = e then (fst e, v) else p) xs) = map fst xs"
    for v :: timer and xs
    by (induction xs) auto
  have "fst ` (\<lambda>p. if p = e then (fst e, v) else p) ` set xs = fst ` set xs"
    for v :: timer and xs
  proof -
    have "fst ` (\<lambda>p. if p = e then (fst e, v) else p) ` set xs =
          set (map fst (map (\<lambda>p. if p = e then (fst e, v) else p) xs))"
      by (simp only: set_map)
    also have "\<dots> = set (map fst xs)" by (simp only: m)
    finally show ?thesis by (simp only: set_map)
  qed
  moreover have "fst ` set (AList.delete k al) = fst ` set al - {k}"
    for k and al :: "(call_id \<times> timer) list"
    by (auto simp add: AList.delete_eq image_iff)
  ultimately show ?thesis
    by (simp add: sweep_entry_def heartbeat_lost_def Let_def del: if_image_distrib)
qed

lemma fold_sweep_ledger:
  "deduct_calls (snd (fold (sweep_entry now) es acc)) =
     deduct_calls (snd acc) @
       map (\<lambda>e. (timer_callerId (snd e), \<lceil>of_nat (durationSeconds (snd e)) * coinRate (snd e)\<rceil>, fst e))
         (filter (\<lambda>e. heartbeat_lost now (snd e)) es)"
  by (induction es arbitrary: acc) (simp_all add: sweep_entry_ledger)

lemma fold_sweep_keys:
  "fst ` set (callTimers (snd (fold (sweep_entry now) es acc))) =
     fst ` set (callTimers (snd acc)) - fst ` set (filter (\<lambda>e. heartbeat_lost now (snd e)) es)"
  by (induction es arbitrary: acc) (auto simp add: sweep_entry_keys)

lemma heartbeat_sweep_timers:
  "deduct_calls (snd (heartbeat_sweep now s)) =
     deduct_calls s @
       map (\<lambda>e. (timer_callerId (snd e), \<lceil>of_nat (durationSeconds (snd e)) * coinRate (snd e)\<rceil>, fst e))
         (filter (\<lambda>e. heartbeat_lost now (snd e)) (callTimers s))"
  "fst ` set (callTimers (snd (heartbeat_sweep now s))) =
     fst ` set (callTimers s) - fst ` set (filter (\<lambda>e. heartbeat_lost now (snd e)) (callTimers s))"
  by (simp_all add: heartbeat_sweep_def fold_sweep_ledger fold_sweep_keys)

text \<open>
  Claim C9 fails in every part.
  \<^item> \<open>C\<close> ends the accepted \<open>call1\<close> over the socket: the session is gone from
    \<^verbatim>\<open>activeCalls\<close>, its timer is still in \<^verbatim>\<open>callTimers\<close> at 40 seconds, and no charge has
    been issued.
  \<^item> The legacy \<^verbatim>\<open>/api/complete_call\<close> deletes the 37-second timer of \<open>call1\<close> and charges
    nothing.
  \<^item> With two timers and a limit of one, the memory guard deletes the older timer of
    \<open>call2\<close> and charges nothing.
  \<^item> \<^verbatim>\<open>/api/calls/start\<close> creates a timer for \<open>call1\<close> at the idle server, where no
    session exists.
\<close>

theorem timers_stranded_unbilled_or_without_session:
  "map_of (activeCalls (snd (end_call ''sockC'' ''call1'' ''C'' active40))) ''call1'' = None
   \<and> map_of (callTimers (snd (end_call ''sockC'' ''call1'' ''C'' active40))) ''call1''
       = Some (timer40\<lparr>autoStarted := True\<rparr>)
   \<and> durationSeconds (timer40\<lparr>autoStarted := True\<rparr>) = 40
   \<and> deduct_calls (snd (end_call ''sockC'' ''call1'' ''C'' active40)) = []
   \<and> map_of (callTimers billing37) ''call1'' = Some timer37
   \<and> map_of (callTimers (snd (complete_call legacy37 billing37))) ''call1'' = None
   \<and> deduct_calls (snd (complete_call legacy37 billing37)) = []
   \<and> map_of (callTimers two_timers) ''call2'' = Some (timer37\<lparr>interval := 1, startTime := 500\<rparr>)
   \<and> map_of (callTimers (eviction_sweep_at 1 two_timers)) ''call2'' = None
   \<and> deduct_calls (eviction_sweep_at 1 two_timers) = []
   \<and> activeCalls idle = []
   \<and> map_of (callTimers (snd (calls_start 1000 start1 idle))) ''call1''
       = Some (timer40\<lparr>durationSeconds := 0\<rparr>)
   \<and> activeCalls (snd (calls_start 1000 start1 idle)) = []"
proof -
  have "map_of (activeCalls (snd (end_call ''sockC'' ''call1'' ''C'' active40))) ''call1'' = None"
    "map_of (callTimers (snd (end_call ''sockC'' ''call1'' ''C'' active40))) ''call1''
       = Some (timer40\<lparr>autoStarted := True\<rparr>)"
    "durationSeconds (timer40\<lparr>autoStarted := True\<rparr>) = 40"
    "deduct_calls (snd (end_call ''sockC'' ''call1'' ''C'' active40)) = []"
    by (simp_all add: end_running_call) (simp_all add: active40_def idle_def empty_server_def timer40_def)
  moreover have "map_of (callTimers billing37) ''call1'' = Some timer37"
    "map_of (callTimers (snd (complete_call legacy37 billing37))) ''call1'' = None"
    "deduct_calls (snd (complete_call legacy37 billing37)) = []"
    by (simp_all add: complete_call_timers legacy37_def billing37_def empty_server_def)
  moreover have "sort_key (\<lambda>p. startTime (snd p)) (callTimers two_timers)
           = [(''call2'', timer37\<lparr>interval := 1, startTime := 500\<rparr>), (''call1'', timer40)]"
    by (simp add: two_timers_def empty_server_def timer40_def timer37_def)
  then have "map_of (callTimers two_timers) ''call2'' = Some (timer37\<lparr>interval := 1, startTime := 500\<rparr>)"
    "map_of (callTimers (eviction_sweep_at 1 two_timers)) ''call2'' = None"
    "deduct_calls (eviction_sweep_at 1 two_timers) = []"
    by (simp_all add: eviction_sweep_at_effect) (simp_all add: two_timers_def empty_server_def)
  moreover have "activeCalls idle = []"
    "map_of (callTimers (snd (calls_start 1000 start1 idle))) ''call1''
       = Some (timer40\<lparr>durationSeconds := 0\<rparr>)"
    "activeCalls (snd (calls_start 1000 start1 idle)) = []"
    by (simp_all add: calls_start_def start1_def idle_def empty_server_def timer40_def
          setInterval_def coin_rate_of_def COIN_RATES_audio_def status_if_connected_def
          hasConnection_def online_R_def online_C_def getUserBalance_def doc200_def or_zero_def
          min_balance_of_def MIN_CALL_DURATION_SECONDS_def saveCallToFirestore_def js_or_def
          Let_def)
  ultimately show ?thesis by simp
qed

text \<open>
  Claim C9, as the code has it: what each operation does to \<^verbatim>\<open>callTimers\<close> and to the
  history of charges.
  \<^item> Creating. An accept that takes effect creates the call's timer when it has none and
    never replaces one; the two HTTP start endpoints set the timer of their callId when
    they answer with success, with or without a session. Neither they nor an initiate
    remove a timer or charge anything.
  \<^item> Ending a session and leaving the timer. \<^verbatim>\<open>end_call\<close>, \<^verbatim>\<open>decline_call\<close>, \<^verbatim>\<open>cancel_call\<close>,
    the ring timeout and the push timeout remove the session from \<^verbatim>\<open>activeCalls\<close> (the
    timeouts when the session still rings or waits for the push) and leave \<^verbatim>\<open>callTimers\<close>
    and the history of charges as they are.
  \<^item> Deleting after the charge. \<^verbatim>\<open>/api/calls/complete\<close> deletes the timer of its callId
    and of no other call, and when there was one it has issued the charge
    \<open>ceil(durationSeconds * coinRate)\<close>. The disconnect handler either leaves timers and
    charges alone, or deletes the timer of the disconnecting user's current call, whose
    session exists, after the charge for it (issued when positive and the session names a
    caller; a zero rate is read as the audio rate). The heartbeat monitor removes the
    entries whose heartbeat is lost, and has issued the charge for each of them, in
    order.
  \<^item> Deleting without a charge. The legacy \<^verbatim>\<open>/api/complete_call\<close> deletes the timer of its
    call and the memory guard (here at any limit; the server runs it at
    \<^const>\<open>MAX_CONCURRENT_CALLS\<close>) deletes the oldest timers above the limit; both leave
    the ledger and the history of charges unchanged.
\<close>

theorem timer_lifecycle_by_operation:
  "callTimers (snd (initiate_call sock stamp fcmSent ir s)) = callTimers s
   \<and> deduct_calls (snd (initiate_call sock stamp fcmSent ir s)) = deduct_calls s
   \<and> (\<forall>k. map_of (callTimers (snd (accept_call sock now ar s))) k =
         (case map_of (activeCalls s) (ar_callId ar) of
            None \<Rightarrow> map_of (callTimers s) k
          | Some c \<Rightarrow>
              if recipientId c = ar_recipientId ar \<and> k = ar_callId ar \<and> map_of (callTimers s) k = None
              then Some \<lparr>interval = next_interval s, startTime = now, durationSeconds = 0,
                         coinRate = coin_rate_of (callType c), timer_callerId = ar_callerId ar,
                         timer_recipientId = ar_recipientId ar, timer_callType = callType c,
                         lastHeartbeat = now, autoStarted = True\<rparr>
              else map_of (callTimers s) k))
   \<and> deduct_calls (snd (accept_call sock now ar s)) = deduct_calls s
   \<and> (\<forall>k. map_of (callTimers (snd (start_call_tracking now sr s))) k =
         (if k = sr_callId sr \<and>
             fst (start_call_tracking now sr s) =
               Http_ok \<lparr>sb_callId = sr_callId sr, sb_coinRate = coin_rate_of (sr_callType sr)\<rparr>
          then Some \<lparr>interval = next_interval s, startTime = now, durationSeconds = 0,
                     coinRate = coin_rate_of (sr_callType sr), timer_callerId = sr_callerId sr,
                     timer_recipientId = sr_recipientId sr, timer_callType = sr_callType sr,
                     lastHeartbeat = now, autoStarted = False\<rparr>
          else map_of (callTimers s) k))
   \<and> deduct_calls (snd (start_call_tracking now sr s)) = deduct_calls s
   \<and> (\<forall>k. map_of (callTimers (snd (calls_start now sr s))) k =
         (if k = sr_callId sr \<and>
             fst (calls_start now sr s) =
               Http_ok \<lparr>sb_callId = sr_callId sr, sb_coinRate = coin_rate_of (sr_callType sr)\<rparr>
          then Some \<lparr>interval = next_interval s, startTime = now, durationSeconds = 0,
                     coinRate = coin_rate_of (sr_callType sr), timer_callerId = sr_callerId sr,
                     timer_recipientId = sr_recipientId sr, timer_callType = sr_callType sr,
                     lastHeartbeat = now, autoStarted = False\<rparr>
          else map_of (callTimers s) k))
   \<and> deduct_calls (snd (calls_start now sr s)) = deduct_calls s
   \<and> callTimers (snd (end_call sock cid u s)) = callTimers s
   \<and> deduct_calls (snd (end_call sock cid u s)) = deduct_calls s
   \<and> map_of (activeCalls (snd (end_call sock cid u s))) cid = None
   \<and> callTimers (snd (decline_call sock ar s)) = callTimers s
   \<and> deduct_calls (snd (decline_call sock ar s)) = deduct_calls s
   \<and> map_of (activeCalls (snd (decline_call sock ar s))) (ar_callId ar) = None
   \<and> callTimers (snd (cancel_call xr s)) = callTimers s
   \<and> deduct_calls (snd (cancel_call xr s)) = deduct_calls s
   \<and> map_of (activeCalls (snd (cancel_call xr s))) (xr_callId xr) = None
   \<and> callTimers (snd (ring_timeout sock rsock cid rid s)) = callTimers s
   \<and> deduct_calls (snd (ring_timeout sock rsock cid rid s)) = deduct_calls s
   \<and> map_of (activeCalls (snd (ring_timeout sock rsock cid rid s))) cid =
       (case map_of (activeCalls s) cid of
          None \<Rightarrow> None
        | Some c \<Rightarrow> if call_state c = Call_ringing then None else Some c)
   \<and> callTimers (snd (fcm_timeout sock cid s)) = callTimers s
   \<and> deduct_calls (snd (fcm_timeout sock cid s)) = deduct_calls s
   \<and> map_of (activeCalls (snd (fcm_timeout sock cid s))) cid =
       (case map_of (activeCalls s) cid of
          None \<Rightarrow> None
        | Some c \<Rightarrow>
            if call_state c = Pending_fcm \<or> call_state c = Call_ringing then None else Some c)
   \<and> (\<forall>k. map_of (callTimers (snd (calls_complete cq s))) k =
         (if k = finalCallId cq \<and> finalCallId cq \<noteq> [] then None else map_of (callTimers s) k))
   \<and> deduct_calls (snd (calls_complete cq s)) =
       deduct_calls s @
         (case (if finalCallId cq = [] then None else map_of (callTimers s) (finalCallId cq)) of
            None \<Rightarrow> []
          | Some t \<Rightarrow>
              [(js_or (finalCallerId cq) (timer_callerId t),
                \<lceil>of_nat (durationSeconds t) * coinRate t\<rceil>, finalCallId cq)])
   \<and> (callTimers (snd (disconnect sock s)) = callTimers s \<and>
       deduct_calls (snd (disconnect sock s)) = deduct_calls s
       \<or> (\<exists>usr conn st k c t.
            user_of_socket sock s = Some (usr, conn) \<and> map_of (userStatus s) usr = Some st \<and>
            currentCallId st = Some k \<and> k \<noteq> [] \<and>
            map_of (activeCalls s) k = Some c \<and> map_of (callTimers s) k = Some t \<and>
            callTimers (snd (disconnect sock s)) = AList.delete k (callTimers s) \<and>
            deduct_calls (snd (disconnect sock s)) =
              deduct_calls s @
                (if callerId c \<noteq> [] \<and>
                    0 < \<lceil>of_nat (durationSeconds t) *
                          (if coinRate t = 0 then COIN_RATES_audio else coinRate t)\<rceil>
                 then [(callerId c,
                        \<lceil>of_nat (durationSeconds t) *
                          (if coinRate t = 0 then COIN_RATES_audio else coinRate t)\<rceil>, k)]
                 else [])))
   \<and> deduct_calls (snd (heartbeat_sweep now s)) =
       deduct_calls s @
         map (\<lambda>e. (timer_callerId (snd e), \<lceil>of_nat (durationSeconds (snd e)) * coinRate (snd e)\<rceil>, fst e))
           (filter (\<lambda>e. heartbeat_lost now (snd e)) (callTimers s))
   \<and> fst ` set (callTimers (snd (heartbeat_sweep now s))) =
       fst ` set (callTimers s) - fst ` set (filter (\<lambda>e. heartbeat_lost now (snd e)) (callTimers s))
   \<and> (\<forall>k. map_of (callTimers (snd (complete_call lq s))) k =
         (if k = lr_call_id lq \<and> lr_call_id lq \<noteq> [] then None else map_of (callTimers s) k))
   \<and> deduct_calls (snd (complete_call lq s)) = deduct_calls s
   \<and> firestore_users (snd (complete_call lq s)) = firestore_users s
   \<and> eviction_sweep s = eviction_sweep_at MAX_CONCURRENT_CALLS s
   \<and> deduct_calls (eviction_sweep_at limit s) = deduct_calls s
   \<and> firestore_users (eviction_sweep_at limit s) = firestore_users s
   \<and> (\<forall>k. map_of (callTimers (eviction_sweep_at limit s)) k =
         (if limit < length (callTimers s) \<and>
             k \<in> fst ` set (take (length (callTimers s) - limit)
                              (sort_key (\<lambda>p. startTime (snd p)) (callTimers s)))
          then None else map_of (callTimers s) k))"
proof -
  note disconnect_timers [of sock s]
  then show ?thesis
    by (simp only: initiate_call_timers accept_call_timers start_call_tracking_timers
          calls_start_timers end_call_timers decline_call_timers cancel_call_timers
          timeouts_timers calls_complete_timers heartbeat_sweep_timers complete_call_timers
          eviction_sweep_def eviction_sweep_at_effect simp_thms)
qed

text \<open>At sample states: the accept of the ringing \<open>call1\<close> creates its timer; completing
  the running \<open>call1\<close> bills 8 coins and deletes the timer; ending it over the socket keeps
  the timer; the heartbeat monitor, 181 seconds after the last heartbeat, bills 8 coins
  and removes the entry; the legacy completion deletes the timer of \<open>call1\<close> and charges
  nothing; with two timers and a limit of one, the guard deletes the older timer of
  \<open>call2\<close> and charges nobody.\<close>

theorem timer_lifecycle_by_operation_witness:
  "map_of (callTimers (snd (accept_call ''sockR'' 2000 accept1 ringing1))) ''call1'' = Some fresh_timer \<and>
   map_of (callTimers (snd (calls_complete complete37 active40))) ''call1'' = None \<and>
   deduct_calls (snd (calls_complete complete37 active40)) = [(''C'', 8, ''call1'')] \<and>
   callTimers (snd (end_call ''sockC'' ''call1'' ''C'' active40)) = callTimers active40 \<and>
   map_of (activeCalls (snd (end_call ''sockC'' ''call1'' ''C'' active40))) ''call1'' = None \<and>
   deduct_calls (snd (heartbeat_sweep 182000 active40)) = [(''C'', 8, ''call1'')] \<and>
   fst ` set (callTimers (snd (heartbeat_sweep 182000 active40))) = {} \<and>
   map_of (callTimers (snd (complete_call legacy37 billing37))) ''call1'' = None \<and>
   deduct_calls (snd (complete_call legacy37 billing37)) = [] \<and>
   map_of (callTimers (eviction_sweep_at 1 two_timers)) ''call2'' = None \<and>
   map_of (callTimers (eviction_sweep_at 1 two_timers)) ''call1'' = Some timer40 \<and>
   deduct_calls (eviction_sweep_at 1 two_timers) = []"
proof -
  note t1 = timer_lifecycle_by_operation
     [where s = ringing1 and ar = accept1 and sock = "''sockR''" and now = 2000 and cq = complete37
        and cid = "''call1''" and u = "''C''" and limit = 1 and ir = init1 and stamp = "''1700''"
        and fcmSent = False and sr = start1 and xr = cancel1 and rsock = "''sockR''"
        and rid = "''R''" and lq = legacy37]
  note t2 = timer_lifecycle_by_operation
     [where s = active40 and ar = accept1 and sock = "''sockC''" and now = 182000 and cq = complete37
        and cid = "''call1''" and u = "''C''" and limit = 1 and ir = init1 and stamp = "''1700''"
        and fcmSent = False and sr = start1 and xr = cancel1 and rsock = "''sockR''"
        and rid = "''R''" and lq = legacy37]
  note t3 = timer_lifecycle_by_operation
     [where s = two_timers and ar = accept1 and sock = "''sockC''" and now = 2000 and cq = complete37
        and cid = "''call1''" and u = "''C''" and limit = 1 and ir = init1 and stamp = "''1700''"
        and fcmSent = False and sr = start1 and xr = cancel1 and rsock = "''sockR''"
        and rid = "''R''" and lq = legacy37]
  note t4 = timer_lifecycle_by_operation
     [where s = billing37 and ar = accept1 and sock = "''sockC''" and now = 2000 and cq = complete37
        and cid = "''call1''" and u = "''C''" and limit = 1 and ir = init1 and stamp = "''1700''"
        and fcmSent = False and sr = start1 and xr = cancel1 and rsock = "''sockR''"
        and rid = "''R''" and lq = legacy37]
  have v: "finalCallId complete37 = ''call1''" "finalCallerId complete37 = ''C''"
    "map_of (callTimers active40) ''call1'' = Some (timer40\<lparr>autoStarted := True\<rparr>)"
    "callTimers active40 = [(''call1'', timer40\<lparr>autoStarted := True\<rparr>)]"
    "deduct_calls active40 = []" "deduct_calls two_timers = []" "deduct_calls billing37 = []"
    "\<lceil>of_nat (durationSeconds (timer40\<lparr>autoStarted := True\<rparr>)) * coinRate (timer40\<lparr>autoStarted := True\<rparr>)\<rceil> = 8"
    "timer_callerId (timer40\<lparr>autoStarted := True\<rparr>) = ''C''"
    "\<lceil>of_nat (durationSeconds timer40) * coinRate timer40\<rceil> = 8"
    "timer_callerId timer40 = ''C''"
    "heartbeat_lost 182000 (timer40\<lparr>autoStarted := True\<rparr>)"
    "lr_call_id legacy37 = ''call1''"
    by (simp_all add: finalCallerId_def finalCallId_def complete37_def js_or_def timer40_def
          COIN_RATES_audio_def ceiling_eq_iff active40_def idle_def empty_server_def
          two_timers_def billing37_def heartbeat_lost_def HEARTBEAT_TIMEOUT_MS_def legacy37_def)
  have e: "length (callTimers two_timers) = 2"
          "sort_key (\<lambda>p. startTime (snd p)) (callTimers two_timers)
           = [(''call2'', timer37\<lparr>interval := 1, startTime := 500\<rparr>), (''call1'', timer40)]"
          "map_of (callTimers two_timers) ''call1'' = Some timer40"
    by (simp_all add: two_timers_def empty_server_def timer40_def timer37_def)
  have a: "map_of (activeCalls ringing1) ''call1'' = Some call1"
    "recipientId call1 = ar_recipientId accept1" "ar_callId accept1 = ''call1''"
    "map_of (callTimers ringing1) ''call1'' = None" "next_interval ringing1 = 0"
    "\<lparr>interval = 0, startTime = 2000, durationSeconds = 0,
      coinRate = coin_rate_of (callType call1), timer_callerId = ar_callerId accept1,
      timer_recipientId = ar_recipientId accept1, timer_callType = callType call1,
      lastHeartbeat = 2000, autoStarted = True\<rparr> = fresh_timer"
    by (simp_all add: ringing1_def idle_def empty_server_def accept1_def call1_def fresh_timer_def
          coin_rate_of_def)
  have r1: "map_of (callTimers (snd (accept_call ''sockR'' 2000 accept1 ringing1))) ''call1'' = Some fresh_timer"
    using t1 [THEN conjunct2, THEN conjunct2, THEN conjunct1, THEN spec [where x = "''call1''"]]
    by (simp add: a)
  have r2: "map_of (callTimers (snd (calls_complete complete37 active40))) ''call1'' = None"
    using t2 [THEN conjunct2, THEN conjunct2, THEN conjunct2, THEN conjunct2, THEN conjunct2, THEN conjunct2, THEN conjunct2, THEN conjunct2, THEN conjunct2, THEN conjunct2, THEN conjunct2, THEN conjunct2, THEN conjunct2, THEN conjunct2, THEN conjunct2, THEN conjunct2, THEN conjunct2, THEN conjunct2, THEN conjunct2, THEN conjunct2, THEN conjunct2, THEN conjunct2, THEN conjunct2, THEN conjunct1, THEN spec [where x = "''call1''"]]
    by (simp add: v)
  have r2b: "deduct_calls (snd (calls_complete complete37 active40)) = [(''C'', 8, ''call1'')]"
    using t2 [THEN conjunct2, THEN conjunct2, THEN conjunct2, THEN conjunct2, THEN conjunct2, THEN conjunct2, THEN conjunct2, THEN conjunct2, THEN conjunct2, THEN conjunct2, THEN conjunct2, THEN conjunct2, THEN conjunct2, THEN conjunct2, THEN conjunct2, THEN conjunct2, THEN conjunct2, THEN conjunct2, THEN conjunct2, THEN conjunct2, THEN conjunct2, THEN conjunct2, THEN conjunct2, THEN conjunct2, THEN conjunct1]
    by (simp add: v js_or_def)
  have r2c: "callTimers (snd (end_call ''sockC'' ''call1'' ''C'' active40)) = callTimers active40"
    using t2 [THEN conjunct2, THEN conjunct2, THEN conjunct2, THEN conjunct2, THEN conjunct2, THEN conjunct2, THEN conjunct2, THEN conjunct2, THEN conjunct1] .
  have r2d: "map_of (activeCalls (snd (end_call ''sockC'' ''call1'' ''C'' active40))) ''call1'' = None"
    using t2 [THEN conjunct2, THEN conjunct2, THEN conjunct2, THEN conjunct2, THEN conjunct2, THEN conjunct2, THEN conjunct2, THEN conjunct2, THEN conjunct2, THEN conjunct2, THEN conjunct1] .
  have r2e: "deduct_calls (snd (heartbeat_sweep 182000 active40)) = [(''C'', 8, ''call1'')]"
    using t2 [THEN conjunct2, THEN conjunct2, THEN conjunct2, THEN conjunct2, THEN conjunct2, THEN conjunct2, THEN conjunct2, THEN conjunct2, THEN conjunct2, THEN conjunct2, THEN conjunct2, THEN conjunct2, THEN conjunct2, THEN conjunct2, THEN conjunct2, THEN conjunct2, THEN conjunct2, THEN conjunct2, THEN conjunct2, THEN conjunct2, THEN conjunct2, THEN conjunct2, THEN conjunct2, THEN conjunct2, THEN conjunct2, THEN conjunct2, THEN conjunct1]
    by (simp add: v)
  have r2f: "fst ` set (callTimers (snd (heartbeat_sweep 182000 active40))) = {}"
    using t2 [THEN conjunct2, THEN conjunct2, THEN conjunct2, THEN conjunct2, THEN conjunct2, THEN conjunct2, THEN conjunct2, THEN conjunct2, THEN conjunct2, THEN conjunct2, THEN conjunct2, THEN conjunct2, THEN conjunct2, THEN conjunct2, THEN conjunct2, THEN conjunct2, THEN conjunct2, THEN conjunct2, THEN conjunct2, THEN conjunct2, THEN conjunct2, THEN conjunct2, THEN conjunct2, THEN conjunct2, THEN conjunct2, THEN conjunct2, THEN conjunct2, THEN conjunct1]
    by (simp add: v)
  have r3: "map_of (callTimers (eviction_sweep_at 1 two_timers)) ''call2'' = None"
    using t3 [THEN conjunct2, THEN conjunct2, THEN conjunct2, THEN conjunct2, THEN conjunct2, THEN conjunct2, THEN conjunct2, THEN conjunct2, THEN conjunct2, THEN conjunct2, THEN conjunct2, THEN conjunct2, THEN conjunct2, THEN conjunct2, THEN conjunct2, THEN conjunct2, THEN conjunct2, THEN conjunct2, THEN conjunct2, THEN conjunct2, THEN conjunct2, THEN conjunct2, THEN conjunct2, THEN conjunct2, THEN conjunct2, THEN conjunct2, THEN conjunct2, THEN conjunct2, THEN conjunct2, THEN conjunct2, THEN conjunct2, THEN conjunct2, THEN conjunct2, THEN conjunct2, THEN spec [where x = "''call2''"]]
    by (simp add: e v)
  have r3b: "map_of (callTimers (eviction_sweep_at 1 two_timers)) ''call1'' = Some timer40"
    using t3 [THEN conjunct2, THEN conjunct2, THEN conjunct2, THEN conjunct2, THEN conjunct2, THEN conjunct2, THEN conjunct2, THEN conjunct2, THEN conjunct2, THEN conjunct2, THEN conjunct2, THEN conjunct2, THEN conjunct2, THEN conjunct2, THEN conjunct2, THEN conjunct2, THEN conjunct2, THEN conjunct2, THEN conjunct2, THEN conjunct2, THEN conjunct2, THEN conjunct2, THEN conjunct2, THEN conjunct2, THEN conjunct2, THEN conjunct2, THEN conjunct2, THEN conjunct2, THEN conjunct2, THEN conjunct2, THEN conjunct2, THEN conjunct2, THEN conjunct2, THEN conjunct2, THEN spec [where x = "''call1''"]]
    by (simp add: e v)
  have r3c: "deduct_calls (eviction_sweep_at 1 two_timers) = []"
    using t3 [THEN conjunct2, THEN conjunct2, THEN conjunct2, THEN conjunct2, THEN conjunct2, THEN conjunct2, THEN conjunct2, THEN conjunct2, THEN conjunct2, THEN conjunct2, THEN conjunct2, THEN conjunct2, THEN conjunct2, THEN conjunct2, THEN conjunct2, THEN conjunct2, THEN conjunct2, THEN conjunct2, THEN conjunct2, THEN conjunct2, THEN conjunct2, THEN conjunct2, THEN conjunct2, THEN conjunct2, THEN conjunct2, THEN conjunct2, THEN conjunct2, THEN conjunct2, THEN conjunct2, THEN conjunct2, THEN conjunct2, THEN conjunct2, THEN conjunct1]
    by (simp add: v)
  have r4: "map_of (callTimers (snd (complete_call legacy37 billing37))) ''call1'' = None"
    using t4 [THEN conjunct2, THEN conjunct2, THEN conjunct2, THEN conjunct2, THEN conjunct2, THEN conjunct2, THEN conjunct2, THEN conjunct2, THEN conjunct2, THEN conjunct2, THEN conjunct2, THEN conjunct2, THEN conjunct2, THEN conjunct2, THEN conjunct2, THEN conjunct2, THEN conjunct2, THEN conjunct2, THEN conjunct2, THEN conjunct2, THEN conjunct2, THEN conjunct2, THEN conjunct2, THEN conjunct2, THEN conjunct2, THEN conjunct2, THEN conjunct2, THEN conjunct2, THEN conjunct1, THEN spec [where x = "''call1''"]]
    by (simp add: v)
  have r4b: "deduct_calls (snd (complete_call legacy37 billing37)) = []"
    using t4 [THEN conjunct2, THEN conjunct2, THEN conjunct2, THEN conjunct2, THEN conjunct2, THEN conjunct2, THEN conjunct2, THEN conjunct2, THEN conjunct2, THEN conjunct2, THEN conjunct2, THEN conjunct2, THEN conjunct2, THEN conjunct2, THEN conjunct2, THEN conjunct2, THEN conjunct2, THEN conjunct2, THEN conjunct2, THEN conjunct2, THEN conjunct2, THEN conjunct2, THEN conjunct2, THEN conjunct2, THEN conjunct2, THEN conjunct2, THEN conjunct2, THEN conjunct2, THEN conjunct2, THEN conjunct1]
    by (simp add: v)
  from r1 r2 r2b r2c r2d r2e r2f r3 r3b r3c r4 r4b show ?thesis by simp
qed

end
